theory Spec2Isabelle
  imports Complex_Main "HOL-Library.AList" "HOL-Library.Multiset"
begin

section \<open>The data plotter's table, plot and rename engine (static/app.ts)\<close>

text \<open>
  The client keeps an array of row objects (\<open>tableData\<close>), a counter for fresh column
  names, and the rendered page: the header cells, the input row, the body cells with
  their blur handlers, and the three axis dropdowns. Every function of app.ts that the
  properties below are about is translated here as a function on an explicit state.
  The page elements the script looks up by selector (the header row, the input row, the
  table body and the three \<open>select\<close> elements) belong to index.html and are taken to exist,
  so the script's \<open>if (!headerRow) return\<close> branches are not part of the model.
  Strings are lists of 8-bit characters (the Latin-1 range of JavaScript's code units).
\<close>

subsection \<open>Strings: whitespace, digits, trimming\<close>

definition is_digit :: "char \<Rightarrow> bool" where
  "is_digit c = (c \<in> set ''0123456789'')"

text \<open>The value of a decimal digit: its character code minus the code of \<open>0\<close>.\<close>

definition digit_val :: "char \<Rightarrow> int" where
  "digit_val c = (if is_digit c then int (of_char c) - 48 else 0)"

definition digits_val :: "string \<Rightarrow> int" where
  "digits_val s = foldl (\<lambda>a c. 10 * a + digit_val c) 0 s"

text \<open>JavaScript's WhiteSpace and LineTerminator characters below U+0100:
  TAB, LF, VT, FF, CR, SPACE and NO-BREAK SPACE.\<close>

definition is_ws :: "char \<Rightarrow> bool" where
  "is_ws c = (c \<in> {CHR 0x09, CHR 0x0A, CHR 0x0B, CHR 0x0C, CHR 0x0D, CHR 0x20, CHR 0xA0})"

text \<open>\<open>String.prototype.trim\<close>.\<close>

definition trim :: "string \<Rightarrow> string" where
  "trim s = rev (dropWhile is_ws (rev (dropWhile is_ws s)))"

definition digit_char :: "int \<Rightarrow> char" where
  "digit_char n = ''0123456789'' ! nat (n mod 10)"

text \<open>The decimal numeral of a non-negative integer, as \<open>toString\<close> and template
  literals print it.\<close>

function digits_of :: "int \<Rightarrow> string" where
  "digits_of n =
     (if n < 10 then [digit_char n] else digits_of (n div 10) @ [digit_char (n mod 10)])"
  by pat_completeness auto
termination
  by (relation "measure nat") auto

declare digits_of.simps [simp del]

definition string_of_nat :: "nat \<Rightarrow> string" where
  "string_of_nat n = digits_of (int n)"

subsection \<open>Numbers\<close>

text \<open>
  A JavaScript number is modelled by its exact value: \<open>NaN\<close>, the two infinities, or a
  rational. Rounding to the nearest double is not modelled; every number the properties
  below speak about (a short decimal such as 3.5, an integer, a count of milliseconds)
  is a double exactly.
\<close>

datatype number = NaN | PosInf | NegInf | Fin rat

text \<open>The operator \<open>-\<close> on numbers.\<close>

fun num_sub :: "number \<Rightarrow> number \<Rightarrow> number" where
  "num_sub NaN _ = NaN"
| "num_sub _ NaN = NaN"
| "num_sub PosInf PosInf = NaN"
| "num_sub NegInf NegInf = NaN"
| "num_sub PosInf _ = PosInf"
| "num_sub NegInf _ = NegInf"
| "num_sub (Fin a) PosInf = NegInf"
| "num_sub (Fin a) NegInf = PosInf"
| "num_sub (Fin a) (Fin b) = Fin (a - b)"

text \<open>The digits after the decimal point of a fraction \<open>0 \<le> q < 1\<close>, at most \<open>fuel\<close> of
  them.\<close>

fun frac_digits :: "nat \<Rightarrow> rat \<Rightarrow> string" where
  "frac_digits 0 q = []"
| "frac_digits (Suc fuel) q =
     (if q = 0 then []
      else digit_char \<lfloor>10 * q\<rfloor> # frac_digits fuel (10 * q - of_int \<lfloor>10 * q\<rfloor>))"

text \<open>\<open>Number.prototype.toString\<close>, in the plain decimal notation JavaScript uses for
  magnitudes from 1e-6 up to 1e21 (the exponent notation outside that range is not
  modelled).\<close>

definition number_to_string :: "number \<Rightarrow> string" where
  "number_to_string n =
     (case n of
        NaN \<Rightarrow> ''NaN''
      | PosInf \<Rightarrow> ''Infinity''
      | NegInf \<Rightarrow> ''-Infinity''
      | Fin q \<Rightarrow>
          (let a = \<bar>q\<bar>; ip = \<lfloor>a\<rfloor>; fr = a - of_int ip
           in (if q < 0 then ''-'' else []) @ digits_of ip @
              (if fr = 0 then [] else CHR ''.'' # frac_digits 20 fr)))"

subsection \<open>parseFloat and parseInt\<close>

text \<open>An optional sign: whether it is a minus, and the rest of the text.\<close>

fun sign_split :: "string \<Rightarrow> bool \<times> string" where
  "sign_split [] = (False, [])"
| "sign_split (c # r) =
     (if c = CHR ''-'' then (True, r) else if c = CHR ''+'' then (False, r) else (False, c # r))"

text \<open>The value of an ExponentPart at the head of the text (\<open>e\<close> or \<open>E\<close>, an optional
  sign, at least one digit); 0 when the text does not start with one.\<close>

fun exponent_part :: "string \<Rightarrow> int" where
  "exponent_part [] = 0"
| "exponent_part (c # r) =
     (if c = CHR ''e'' \<or> c = CHR ''E'' then
        (case sign_split r of (neg, r') \<Rightarrow>
           (let ds = takeWhile is_digit r'
            in if ds = [] then 0
               else if neg then - digits_val ds else digits_val ds))
      else 0)"

definition scale10 :: "rat \<Rightarrow> int \<Rightarrow> rat" where
  "scale10 m e = (if 0 \<le> e then m * 10 ^ nat e else m / 10 ^ nat (- e))"

text \<open>
  \<open>parseFloat\<close>: leading white space is skipped, then the longest prefix that is a
  StrDecimalLiteral is read (a sign, then \<open>Infinity\<close>, or digits with an optional
  fraction, or a fraction alone, then an optional exponent); \<open>NaN\<close> when there is none.
\<close>

definition parseFloat :: "string \<Rightarrow> number" where
  "parseFloat s =
     (case sign_split (dropWhile is_ws s) of (neg, t) \<Rightarrow>
        if take 8 t = ''Infinity'' then (if neg then NegInf else PosInf)
        else
          (let ip = takeWhile is_digit t;
               r1 = dropWhile is_digit t;
               has_dot = (r1 \<noteq> [] \<and> hd r1 = CHR ''.'');
               fp = (if has_dot then takeWhile is_digit (tl r1) else []);
               r2 = (if has_dot then dropWhile is_digit (tl r1) else r1)
           in if ip = [] \<and> fp = [] then NaN
              else
                (let m = scale10 (of_int (digits_val (ip @ fp)) / 10 ^ length fp)
                           (exponent_part r2)
                 in Fin (if neg then - m else m))))"

definition is_hex_digit :: "char \<Rightarrow> bool" where
  "is_hex_digit c = (c \<in> set ''0123456789abcdefABCDEF'')"

fun hex_val :: "char \<Rightarrow> int" where
  "hex_val c =
     (if c = CHR ''a'' \<or> c = CHR ''A'' then 10 else if c = CHR ''b'' \<or> c = CHR ''B'' then 11
      else if c = CHR ''c'' \<or> c = CHR ''C'' then 12 else if c = CHR ''d'' \<or> c = CHR ''D'' then 13
      else if c = CHR ''e'' \<or> c = CHR ''E'' then 14 else if c = CHR ''f'' \<or> c = CHR ''F'' then 15
      else digit_val c)"

text \<open>
  \<open>parseInt\<close> with no radix argument: white space, a sign, then either \<open>0x\<close>/\<open>0X\<close> and
  hexadecimal digits or decimal digits; \<open>None\<close> stands for \<open>NaN\<close>.
\<close>

definition parseInt :: "string \<Rightarrow> int option" where
  "parseInt s =
     (case sign_split (dropWhile is_ws s) of (neg, t) \<Rightarrow>
        (let hex = (take 2 t = ''0x'' \<or> take 2 t = ''0X'');
             ds = (if hex then takeWhile is_hex_digit (drop 2 t) else takeWhile is_digit t);
             v = (if hex then foldl (\<lambda>a c. 16 * a + hex_val c) 0 ds else digits_val ds)
         in if ds = [] then None else Some (if neg then - v else v)))"

subsection \<open>Calendar dates and the Date object\<close>

text \<open>
  The day number of a civil date of the proleptic Gregorian calendar, counted from
  1970-01-01, and its inverse: what ECMAScript's MakeDay, YearFromTime, MonthFromTime
  and DateFromTime compute. A time value is a count of milliseconds since the epoch.
\<close>

definition days_from_civil :: "int \<Rightarrow> int \<Rightarrow> int \<Rightarrow> int" where
  "days_from_civil y m d =
     (let y' = (if m \<le> 2 then y - 1 else y);
          era = y' div 400;
          yoe = y' - era * 400;
          doy = (153 * (if 2 < m then m - 3 else m + 9) + 2) div 5 + d - 1;
          doe = yoe * 365 + yoe div 4 - yoe div 100 + doy
      in era * 146097 + doe - 719468)"

definition civil_from_days :: "int \<Rightarrow> int \<times> int \<times> int" where
  "civil_from_days z =
     (let z' = z + 719468;
          era = z' div 146097;
          doe = z' - era * 146097;
          yoe = (doe - doe div 1460 + doe div 36524 - doe div 146096) div 365;
          doy = doe - (365 * yoe + yoe div 4 - yoe div 100);
          mp = (5 * doy + 2) div 153;
          d = doy - (153 * mp + 2) div 5 + 1;
          m = (if mp < 10 then mp + 3 else mp - 9)
      in ((if m \<le> 2 then yoe + era * 400 + 1 else yoe + era * 400), m, d))"

definition ms_per_day :: int where
  "ms_per_day = 86400000"

definition days_in_month :: "int \<Rightarrow> int \<Rightarrow> int" where
  "days_in_month y m =
     (if m = 2 then (if y mod 4 = 0 \<and> (y mod 100 \<noteq> 0 \<or> y mod 400 = 0) then 29 else 28)
      else if m = 4 \<or> m = 6 \<or> m = 9 \<or> m = 11 then 30 else 31)"

text \<open>The regular expression \<open>/^\d{4}-\d{2}-\d{2}$/\<close> of the cell handler: exactly ten
  characters, ASCII digits around two hyphens.\<close>

fun date_pattern :: "string \<Rightarrow> bool" where
  "date_pattern [y1, y2, y3, y4, h1, m1, m2, h2, d1, d2] =
     (is_digit y1 \<and> is_digit y2 \<and> is_digit y3 \<and> is_digit y4 \<and> h1 = CHR ''-'' \<and>
      is_digit m1 \<and> is_digit m2 \<and> h2 = CHR ''-'' \<and> is_digit d1 \<and> is_digit d2)"
| "date_pattern _ = False"

text \<open>The year, month and day of a text of the form YYYY-MM-DD that names a day of the
  calendar.\<close>

definition iso_date_fields :: "string \<Rightarrow> (int \<times> int \<times> int) option" where
  "iso_date_fields s =
     (if date_pattern s then
        (let y = digits_val (take 4 s);
             m = digits_val (take 2 (drop 5 s));
             d = digits_val (drop 8 s)
         in if 1 \<le> m \<and> m \<le> 12 \<and> 1 \<le> d \<and> d \<le> days_in_month y m then Some (y, m, d)
            else None)
      else None)"

text \<open>
  \<open>Date.parse\<close> on the date-only ISO form, which is read as UTC midnight. Other
  formats, which the standard leaves to the implementation, and element values out of
  range give \<open>None\<close> (an invalid date).
\<close>

definition date_parse :: "string \<Rightarrow> int option" where
  "date_parse s =
     (case iso_date_fields s of
        None \<Rightarrow> None
      | Some (y, m, d) \<Rightarrow> Some (days_from_civil y m d * ms_per_day))"

definition pad2 :: "int \<Rightarrow> string" where
  "pad2 n = (if n < 10 then CHR ''0'' # digits_of n else digits_of n)"

definition pad_to :: "nat \<Rightarrow> string \<Rightarrow> string" where
  "pad_to w s = replicate (w - length s) CHR ''0'' @ s"

text \<open>The date part of \<open>toISOString()\<close>: four digits for the years 0 to 9999, a sign
  and six digits otherwise.\<close>

definition iso_date :: "int \<Rightarrow> int \<Rightarrow> int \<Rightarrow> string" where
  "iso_date y m d =
     (if 0 \<le> y \<and> y \<le> 9999 then pad_to 4 (digits_of y)
      else (if y < 0 then ''-'' else ''+'') @ pad_to 6 (digits_of \<bar>y\<bar>))
     @ ''-'' @ pad2 m @ ''-'' @ pad2 d"

text \<open>The device: its clock (milliseconds since the epoch, UTC) and the offset of its
  time zone from UTC in minutes, positive east of Greenwich, taken as constant over
  the day in question.\<close>

record env =
  now_ms :: int
  tz_offset_min :: int

definition local_date :: "env \<Rightarrow> int \<times> int \<times> int" where
  "local_date e = civil_from_days ((now_ms e + tz_offset_min e * 60000) div ms_per_day)"

text \<open>
  \<open>getTodayLocal\<close>: \<open>now.getFullYear()\<close>, \<open>getMonth()\<close> and \<open>getDate()\<close> are the fields
  of the local date; \<open>new Date(y, m, d)\<close> is local midnight of that date (a year from 0
  to 99 is read as 1900 + year), as a time value in UTC; \<open>toISOString()\<close> prints that time
  value in UTC, and \<open>split('T')[0]\<close> keeps its date part.
\<close>

definition getTodayLocal :: "env \<Rightarrow> string" where
  "getTodayLocal e =
     (case local_date e of (y, m, d) \<Rightarrow>
        (let yy = (if 0 \<le> y \<and> y \<le> 99 then 1900 + y else y);
             t = days_from_civil yy m d * ms_per_day - tz_offset_min e * 60000
         in case civil_from_days (t div ms_per_day) of (uy, um, ud) \<Rightarrow> iso_date uy um ud))"

subsection \<open>Values and row objects\<close>

datatype jsval = Undefined | Str string | Num number

text \<open>
  A row object: its own properties, each key once, in the order they were created.
  \<open>row[k]\<close> is \<open>obj_get\<close>, \<open>k in row\<close> is \<open>obj_has\<close>, \<open>row[k] = v\<close> is \<open>obj_set\<close> (an
  existing key keeps its place, a new one goes last), \<open>delete row[k]\<close> is \<open>obj_delete\<close>.
  A spread copy \<open>{...row}\<close> is the same list.
\<close>

type_synonym row = "(string \<times> jsval) list"

definition obj_get :: "row \<Rightarrow> string \<Rightarrow> jsval" where
  "obj_get r k = (case map_of r k of None \<Rightarrow> Undefined | Some v \<Rightarrow> v)"

definition obj_has :: "row \<Rightarrow> string \<Rightarrow> bool" where
  "obj_has r k = (map_of r k \<noteq> None)"

definition obj_set :: "row \<Rightarrow> string \<Rightarrow> jsval \<Rightarrow> row" where
  "obj_set r k v = AList.update k v r"

definition obj_delete :: "row \<Rightarrow> string \<Rightarrow> row" where
  "obj_delete r k = AList.delete k r"

text \<open>A key that is an array index (a canonical numeral below \<open>2^32 - 1\<close>).\<close>

definition is_array_index :: "string \<Rightarrow> bool" where
  "is_array_index k =
     (k \<noteq> [] \<and> list_all is_digit k \<and> (k = ''0'' \<or> hd k \<noteq> CHR ''0'') \<and>
      digits_val k < 4294967295)"

text \<open>\<open>Object.keys\<close>: the array-index keys in ascending numeric order, then the other
  keys in creation order.\<close>

definition object_keys :: "row \<Rightarrow> string list" where
  "object_keys r =
     (let ks = map fst r
      in sort_key digits_val (filter is_array_index ks) @
         filter (\<lambda>k. \<not> is_array_index k) ks)"

text \<open>\<open>toString()\<close> of a stored value; on \<open>undefined\<close> the call raises a TypeError,
  which is \<open>None\<close> here.\<close>

fun js_to_string :: "jsval \<Rightarrow> string option" where
  "js_to_string Undefined = None"
| "js_to_string (Str s) = Some s"
| "js_to_string (Num n) = Some (number_to_string n)"

text \<open>What follows an ExponentPart at the head of the text (the whole text when it
  does not start with one), and what follows the StrDecimalLiteral that \<open>parseFloat\<close>
  reads.\<close>

definition exponent_rest :: "string \<Rightarrow> string" where
  "exponent_rest s =
     (case s of
        [] \<Rightarrow> []
      | c # r \<Rightarrow>
          if c = CHR ''e'' \<or> c = CHR ''E'' then
            (case sign_split r of (neg, r') \<Rightarrow>
               if takeWhile is_digit r' = [] then s else dropWhile is_digit r')
          else s)"

definition literal_rest :: "string \<Rightarrow> string" where
  "literal_rest s =
     (case sign_split s of (neg, t) \<Rightarrow>
        if take 8 t = ''Infinity'' then drop 8 t
        else
          (let r1 = dropWhile is_digit t;
               has_dot = (r1 \<noteq> [] \<and> hd r1 = CHR ''.'')
           in exponent_rest (if has_dot then dropWhile is_digit (tl r1) else r1)))"

text \<open>
  The operand of the numeric comparison in the plot's sort, \<open>a[xAxis] as number\<close>. The
  row type declares every value outside the Date column a number. The subtraction
  converts any other operand: a missing value is \<open>NaN\<close>; a string is trimmed, the empty
  string is 0, a string that is a decimal literal from end to end is its value, and any
  other string is \<open>NaN\<close> (the hexadecimal, octal and binary literals, which the
  conversion also reads, are not modelled).
\<close>

definition to_number :: "jsval \<Rightarrow> number" where
  "to_number v =
     (case v of
        Num n \<Rightarrow> n
      | Undefined \<Rightarrow> NaN
      | Str s \<Rightarrow>
          (let t = trim s
           in if t = [] then Fin 0
              else if literal_rest t = [] then parseFloat t else NaN))"

text \<open>\<open>new Date(v).getTime()\<close>: a string is parsed, a number is a time value (in the
  range of 8.64e15 milliseconds around the epoch, truncated to an integer).\<close>

definition date_getTime :: "jsval \<Rightarrow> number" where
  "date_getTime v =
     (case v of
        Str s \<Rightarrow> (case date_parse s of None \<Rightarrow> NaN | Some t \<Rightarrow> Fin (of_int t))
      | Num (Fin q) \<Rightarrow>
          (if \<bar>q\<bar> \<le> 8640000000000000
           then Fin (of_int (if 0 \<le> q then \<lfloor>q\<rfloor> else \<lceil>q\<rceil>)) else NaN)
      | _ \<Rightarrow> NaN)"

subsection \<open>The page: header cells, inputs, body cells, dropdowns\<close>

text \<open>A header cell \<open>th\<close>: its \<open>data-column\<close> attribute (the empty text when the
  attribute is absent, which the script reads the same way), its text content, and
  whether it is \<open>contenteditable\<close>.\<close>

record header =
  data_column :: string
  header_text :: string
  editable :: bool

datatype input_kind = DateInput | NumberInput

text \<open>An input of the input row: its id, its type, and the text the user has typed
  into the control.\<close>

record input_el =
  input_id :: string
  input_kind :: input_kind
  input_text :: string

text \<open>
  HTML's valid floating-point number: an optional \<open>-\<close>, then digits or a fraction or
  both, then an optional exponent with at least one digit.
\<close>

definition valid_exponent :: "string \<Rightarrow> bool" where
  "valid_exponent s =
     (case s of
        [] \<Rightarrow> True
      | c # r \<Rightarrow>
          (c = CHR ''e'' \<or> c = CHR ''E'') \<and>
          (case sign_split r of (neg, r') \<Rightarrow> r' \<noteq> [] \<and> list_all is_digit r'))"

definition valid_float :: "string \<Rightarrow> bool" where
  "valid_float s =
     (let t = (case s of [] \<Rightarrow> [] | c # r \<Rightarrow> if c = CHR ''-'' then r else s);
          ip = takeWhile is_digit t;
          r1 = dropWhile is_digit t;
          has_dot = (r1 \<noteq> [] \<and> hd r1 = CHR ''.'');
          fp = (if has_dot then takeWhile is_digit (tl r1) else []);
          r2 = (if has_dot then dropWhile is_digit (tl r1) else r1)
      in (if has_dot then fp \<noteq> [] else ip \<noteq> []) \<and> valid_exponent r2)"

fun month_day_suffix :: "string \<Rightarrow> (int \<times> int) option" where
  "month_day_suffix [h1, m1, m2, h2, d1, d2] =
     (if h1 = CHR ''-'' \<and> is_digit m1 \<and> is_digit m2 \<and> h2 = CHR ''-'' \<and> is_digit d1 \<and> is_digit d2
      then Some (digits_val [m1, m2], digits_val [d1, d2]) else None)"
| "month_day_suffix _ = None"

text \<open>HTML's valid date string: a year of four or more digits that is not zero, a
  month and a day of that month.\<close>

definition valid_date_string :: "string \<Rightarrow> bool" where
  "valid_date_string s =
     (let yd = takeWhile is_digit s
      in 4 \<le> length yd \<and> 0 < digits_val yd \<and>
         (case month_day_suffix (dropWhile is_digit s) of
            None \<Rightarrow> False
          | Some (m, d) \<Rightarrow> 1 \<le> m \<and> m \<le> 12 \<and> 1 \<le> d \<and> d \<le> days_in_month (digits_val yd) m))"

text \<open>
  The \<open>value\<close> of an input. The script creates the input of the Date column with
  \<open>type="date"\<close> and every other input with \<open>type="number"\<close>; for these types the
  browser's value sanitization gives the empty string unless the text is a valid date
  string, respectively a valid floating-point number (its overflow check on the
  magnitude is not modelled).
\<close>

definition input_value :: "input_el \<Rightarrow> string" where
  "input_value i =
     (case input_kind i of
        DateInput \<Rightarrow> if valid_date_string (input_text i) then input_text i else []
      | NumberInput \<Rightarrow> if valid_float (input_text i) then input_text i else [])"

text \<open>\<open>document.getElementById\<close> among the inputs: the first one with the id. Column
  identifiers are taken not to coincide with the ids of the other elements of
  index.html.\<close>

definition find_input :: "string \<Rightarrow> input_el list \<Rightarrow> input_el option" where
  "find_input k els = List.find (\<lambda>i. input_id i = k) els"

fun set_input_text :: "string \<Rightarrow> string \<Rightarrow> input_el list \<Rightarrow> input_el list" where
  "set_input_text k v [] = []"
| "set_input_text k v (i # els) =
     (if input_id i = k then i\<lparr>input_text := v\<rparr> # els else i # set_input_text k v els)"

fun set_input_id :: "string \<Rightarrow> string \<Rightarrow> input_el list \<Rightarrow> input_el list" where
  "set_input_id k k' [] = []"
| "set_input_id k k' (i # els) =
     (if input_id i = k then i\<lparr>input_id := k'\<rparr> # els else i # set_input_id k k' els)"

text \<open>
  A body cell: its text content, its \<open>data-column\<close> attribute, and the row object its
  blur handler closed over when the cell was rendered (the parameter \<open>row\<close> of the
  \<open>forEach\<close> callback in \<open>renderTableRows\<close>). A body row carries the \<open>data-row-index\<close>
  attribute, \<open>None\<close> when it is absent.
\<close>

record cell =
  cell_text :: string
  cell_column :: string
  cell_row :: row

record body_row =
  row_index_attr :: "string option"
  body_cells :: "cell list"

text \<open>
  A dropdown (\<open>select\<close> without \<open>multiple\<close>): its options and the value of the selected
  option, \<open>None\<close> when no option is selected. By the HTML standard the getter of
  \<open>value\<close> returns the empty string when nothing is selected; the setter deselects
  every option and then selects the first option whose value equals the new value, if
  there is one; and when an option is inserted while nothing is selected, the first
  option becomes selected.
\<close>

record select =
  sel_options :: "string list"
  sel_selected :: "string option"

definition select_value :: "select \<Rightarrow> string" where
  "select_value s = (case sel_selected s of None \<Rightarrow> [] | Some v \<Rightarrow> v)"

definition select_set_value :: "select \<Rightarrow> string \<Rightarrow> select" where
  "select_set_value s v = s\<lparr>sel_selected := (if v \<in> set (sel_options s) then Some v else None)\<rparr>"

definition empty_select :: select where
  "empty_select = \<lparr>sel_options = [], sel_selected = None\<rparr>"

definition select_append :: "select \<Rightarrow> string \<Rightarrow> select" where
  "select_append s v =
     \<lparr>sel_options = sel_options s @ [v],
      sel_selected = (case sel_selected s of
                        None \<Rightarrow> Some (hd (sel_options s @ [v]))
                      | Some w \<Rightarrow> Some w)\<rparr>"

subsection \<open>The state\<close>

text \<open>A request sent to the backend: the body of \<open>add_row\<close> or of \<open>replace_data\<close>.\<close>

datatype request = AddRow row | ReplaceData "row list"

text \<open>What \<open>Plotly.newPlot\<close> receives: the two traces, each with its x values, its y
  values and its name.\<close>

record trace =
  trace_x :: "jsval list"
  trace_y :: "jsval list"
  trace_name :: string

text \<open>
  \<open>generation\<close> counts the calls of \<open>renderTableRows\<close>: each call removes the body rows
  and creates new cells, so a handler of an earlier generation writes to a cell that
  is no longer in the page. \<open>requests\<close> logs the \<open>fetch\<close> calls in the order issued,
  \<open>plot\<close> is the last plot drawn.
\<close>

record state =
  tableData :: "row list"
  columnCounter :: nat
  headers :: "header list"
  inputs :: "input_el list"
  tbody :: "body_row list"
  generation :: nat
  xAxisSelect :: select
  yAxis1Select :: select
  yAxis2Select :: select
  requests :: "request list"
  plot :: "(trace \<times> trace) option"

datatype error = TypeError

subsection \<open>getColumnHeaders\<close>

definition default_columns :: "string list" where
  "default_columns = [''Date'', ''Variable 1'', ''Variable 2'']"

definition getColumnHeaders :: "state \<Rightarrow> string list" where
  "getColumnHeaders st =
     (let columns = map data_column (headers st)
      in if headers st \<noteq> [] \<and> list_all (\<lambda>col. col \<noteq> []) columns then columns
         else if tableData st \<noteq> [] then object_keys (hd (tableData st))
         else default_columns)"

subsection \<open>updatePlot\<close>

text \<open>
  \<open>Array.prototype.sort\<close> with a comparator. The sort is stable, a comparator result
  that is \<open>NaN\<close> counts as 0, and for a comparator that orders the elements
  consistently the result is the one stable sorted arrangement, computed here by
  insertion. For a comparator that is not consistent the standard leaves the order to
  the implementation.
\<close>

definition positive :: "number \<Rightarrow> bool" where
  "positive v = (case v of PosInf \<Rightarrow> True | Fin q \<Rightarrow> 0 < q | _ \<Rightarrow> False)"

fun insert_sorted :: "('a \<Rightarrow> 'a \<Rightarrow> number) \<Rightarrow> 'a \<Rightarrow> 'a list \<Rightarrow> 'a list" where
  "insert_sorted cmp x [] = [x]"
| "insert_sorted cmp x (y # ys) =
     (if positive (cmp x y) then y # insert_sorted cmp x ys else x # y # ys)"

definition array_sort :: "('a \<Rightarrow> 'a \<Rightarrow> number) \<Rightarrow> 'a list \<Rightarrow> 'a list" where
  "array_sort cmp xs = foldr (insert_sorted cmp) xs []"

text \<open>The comparator of \<open>updatePlot\<close>.\<close>

definition plot_compare :: "string \<Rightarrow> row \<Rightarrow> row \<Rightarrow> number" where
  "plot_compare xAxis a b =
     (if xAxis = ''Date''
      then num_sub (date_getTime (obj_get a xAxis)) (date_getTime (obj_get b xAxis))
      else num_sub (to_number (obj_get a xAxis)) (to_number (obj_get b xAxis)))"

definition updatePlot :: "state \<Rightarrow> state" where
  "updatePlot st =
     (let xAxis = select_value (xAxisSelect st);
          yAxis1 = select_value (yAxis1Select st);
          yAxis2 = select_value (yAxis2Select st);
          sortedData = array_sort (plot_compare xAxis) (tableData st);
          trace1 = \<lparr>trace_x = map (\<lambda>d. obj_get d xAxis) sortedData,
                    trace_y = map (\<lambda>d. obj_get d yAxis1) sortedData,
                    trace_name = yAxis1\<rparr>;
          trace2 = \<lparr>trace_x = map (\<lambda>d. obj_get d xAxis) sortedData,
                    trace_y = map (\<lambda>d. obj_get d yAxis2) sortedData,
                    trace_name = yAxis2\<rparr>
      in st\<lparr>plot := Some (trace1, trace2)\<rparr>)"

subsection \<open>updateDropdownSelectors\<close>

text \<open>\<open>a[0] || b[0]\<close> as the new value of a dropdown: the first element of \<open>a\<close> unless
  it is missing or empty, else the first element of \<open>b\<close>, and \<open>undefined\<close> (assigned as
  the text "undefined") when \<open>b\<close> is empty as well.\<close>

definition first_or :: "string list \<Rightarrow> string \<Rightarrow> string" where
  "first_or a dflt = (case a of [] \<Rightarrow> dflt | x # _ \<Rightarrow> if x = [] then dflt else x)"

definition first_or_undefined :: "string list \<Rightarrow> string" where
  "first_or_undefined b = (case b of [] \<Rightarrow> ''undefined'' | x # _ \<Rightarrow> x)"

text \<open>An optional argument is truthy when it is given and not empty.\<close>

definition wanted :: "string option \<Rightarrow> string list \<Rightarrow> bool" where
  "wanted d cols = (case d of None \<Rightarrow> False | Some v \<Rightarrow> v \<noteq> [] \<and> v \<in> set cols)"

definition updateDropdownSelectors ::
  "string option \<Rightarrow> string option \<Rightarrow> string option \<Rightarrow> state \<Rightarrow> state" where
  "updateDropdownSelectors desiredX desiredY1 desiredY2 st =
     (let columnNames = getColumnHeaders st;
          nonDateColumns = filter (\<lambda>col. col \<noteq> ''Date'') columnNames;
          x0 = foldl select_append empty_select columnNames;
          y10 = foldl select_append empty_select nonDateColumns;
          y20 = foldl select_append empty_select nonDateColumns;
          x = (if wanted desiredX columnNames then select_set_value x0 (the desiredX)
               else select_set_value x0 ''Date'');
          y1 = (if wanted desiredY1 nonDateColumns then select_set_value y10 (the desiredY1)
                else select_set_value y10
                       (first_or nonDateColumns (first_or_undefined columnNames)));
          y2 = (if wanted desiredY2 nonDateColumns then select_set_value y20 (the desiredY2)
                else (let y1Value = select_value y1;
                          availableColumns = filter (\<lambda>col. col \<noteq> y1Value) nonDateColumns
                      in select_set_value y20
                           (first_or availableColumns
                              (first_or nonDateColumns (first_or_undefined columnNames)))))
      in st\<lparr>xAxisSelect := x, yAxis1Select := y1, yAxis2Select := y2\<rparr>)"

subsection \<open>renderTableRows\<close>

definition render_cell :: "row \<Rightarrow> string \<Rightarrow> cell" where
  "render_cell rw key =
     \<lparr>cell_text = (case js_to_string (obj_get rw key) of None \<Rightarrow> [] | Some t \<Rightarrow> t),
      cell_column = key,
      cell_row = rw\<rparr>"

definition renderTableRows :: "state \<Rightarrow> state" where
  "renderTableRows st =
     (let columnOrder = getColumnHeaders st
      in st\<lparr>tbody := map (\<lambda>(rw, dataIndex).
                              \<lparr>row_index_attr = Some (string_of_nat dataIndex),
                               body_cells = map (render_cell rw) columnOrder\<rparr>)
                          (zip (tableData st) [0..<length (tableData st)]),
            generation := Suc (generation st)\<rparr>)"

subsection \<open>The blur handler of a body cell\<close>

definition set_cell_text :: "nat \<Rightarrow> nat \<Rightarrow> string \<Rightarrow> state \<Rightarrow> state" where
  "set_cell_text r c t st =
     st\<lparr>tbody := (tbody st)
            [r := (tbody st ! r)
               \<lparr>body_cells := (body_cells (tbody st ! r))
                  [c := (body_cells (tbody st ! r) ! c)\<lparr>cell_text := t\<rparr>]\<rparr>]\<rparr>"

text \<open>\<open>parseInt(parentRow.getAttribute('data-row-index') || '-1')\<close>.\<close>

definition row_index_of :: "body_row \<Rightarrow> int option" where
  "row_index_of tr =
     parseInt (case row_index_attr tr of
                 None \<Rightarrow> ''-1''
               | Some a \<Rightarrow> if a = [] then ''-1'' else a)"

text \<open>\<open>rowIndex >= tableData.length\<close>, false when \<open>rowIndex\<close> is \<open>NaN\<close>.\<close>

definition index_at_least :: "int option \<Rightarrow> nat \<Rightarrow> bool" where
  "index_at_least idx n = (case idx of None \<Rightarrow> False | Some i \<Rightarrow> int n \<le> i)"

text \<open>\<open>{...tableData[rowIndex]}\<close>: outside the array the element is \<open>undefined\<close> and
  its spread copy is the empty object.\<close>

definition array_spread_at :: "row list \<Rightarrow> int option \<Rightarrow> row" where
  "array_spread_at xs idx =
     (case idx of
        None \<Rightarrow> []
      | Some i \<Rightarrow> if 0 \<le> i \<and> i < int (length xs) then xs ! nat i else [])"

text \<open>
  \<open>tableData[rowIndex] = v\<close>. For a negative index or \<open>NaN\<close> the assignment creates a
  named property of the array object and leaves its elements and its length as they
  are; nothing in the script reads such a property. An index at or beyond the length
  does not reach this assignment in the blur handler (its guard returns first); when a
  settled request finds the table shorter than at the edit, JavaScript would extend the
  array, which is not modelled: the elements stay as they are.
\<close>

definition array_store :: "row list \<Rightarrow> int option \<Rightarrow> row \<Rightarrow> row list" where
  "array_store xs idx v =
     (case idx of
        None \<Rightarrow> xs
      | Some i \<Rightarrow> if 0 \<le> i \<and> i < int (length xs) then xs[nat i := v] else xs)"

text \<open>What the promise chain of an accepted edit closes over: the cell (its position
  and the generation it was rendered in), the column, the row index, and \<open>row\<close>.\<close>

record pending =
  p_row :: nat
  p_cell :: nat
  p_generation :: nat
  p_column :: string
  p_rowIndex :: "int option"
  p_snapshot :: row

datatype edit = Rejected state | Accepted state pending

text \<open>\<open>this.textContent = row[columnName].toString(); return\<close>.\<close>

definition revert_cell :: "nat \<Rightarrow> nat \<Rightarrow> cell \<Rightarrow> state \<Rightarrow> error + edit" where
  "revert_cell r c cl st =
     (case js_to_string (obj_get (cell_row cl) (cell_column cl)) of
        None \<Rightarrow> Inl TypeError
      | Some t \<Rightarrow> Inr (Rejected (set_cell_text r c t st)))"

text \<open>The lines from \<open>// Update data\<close> to the \<open>fetch\<close> call.\<close>

definition commit_edit :: "nat \<Rightarrow> nat \<Rightarrow> cell \<Rightarrow> int option \<Rightarrow> jsval \<Rightarrow> state \<Rightarrow> edit" where
  "commit_edit r c cl rowIndex v st =
     (let updatedRow = obj_set (array_spread_at (tableData st) rowIndex) (cell_column cl) v;
          td = array_store (tableData st) rowIndex updatedRow
      in Accepted (st\<lparr>tableData := td, requests := requests st @ [ReplaceData td]\<rparr>)
           \<lparr>p_row = r, p_cell = c, p_generation = generation st,
            p_column = cell_column cl, p_rowIndex = rowIndex, p_snapshot = cell_row cl\<rparr>)"

text \<open>The blur handler of the cell at position \<open>c\<close> of body row \<open>r\<close>.\<close>

definition cell_blur :: "nat \<Rightarrow> nat \<Rightarrow> state \<Rightarrow> error + edit" where
  "cell_blur r c st =
     (let tr = tbody st ! r;
          cl = body_cells tr ! c;
          newValue = trim (cell_text cl);
          columnName = cell_column cl;
          rowIndex = row_index_of tr
      in if rowIndex = Some (- 1) \<or> index_at_least rowIndex (length (tableData st))
         then revert_cell r c cl st
         else if columnName = ''Date'' then
           (if \<not> date_pattern newValue then revert_cell r c cl st
            else Inr (commit_edit r c cl rowIndex (Str newValue) st))
         else
           (let num = parseFloat newValue
            in if num = NaN then revert_cell r c cl st
               else Inr (commit_edit r c cl rowIndex (Num (parseFloat newValue))
                           (set_cell_text r c (number_to_string num) st))))"

text \<open>The user types a text into a body cell and leaves it.\<close>

definition commit_cell :: "nat \<Rightarrow> nat \<Rightarrow> string \<Rightarrow> state \<Rightarrow> error + edit" where
  "commit_cell r c t st = cell_blur r c (set_cell_text r c t st)"

text \<open>
  How the \<open>replace_data\<close> request of an edit ends: the response is ok and its body
  parses; the response is not ok; the request fails; or the body of an ok response
  does not parse. All but the first reach the \<open>catch\<close> callback.
\<close>

datatype reply = Success | HttpError | NetworkFailure | BadBody

definition edit_settled :: "pending \<Rightarrow> reply \<Rightarrow> state \<Rightarrow> error + state" where
  "edit_settled p rp st =
     (if rp = Success then Inr (updatePlot st)
      else
        (case js_to_string (obj_get (p_snapshot p) (p_column p)) of
           None \<Rightarrow> Inl TypeError
         | Some t \<Rightarrow>
             Inr ((if p_generation p = generation st
                   then set_cell_text (p_row p) (p_cell p) t st else st)
                  \<lparr>tableData := array_store (tableData st) (p_rowIndex p) (p_snapshot p)\<rparr>)))"

subsection \<open>The blur handler of a header cell: renaming a column\<close>

definition set_header_text :: "nat \<Rightarrow> string \<Rightarrow> state \<Rightarrow> state" where
  "set_header_text i t st = st\<lparr>headers := (headers st)[i := (headers st ! i)\<lparr>header_text := t\<rparr>]\<rparr>"

text \<open>The user edits the text of a header cell; a cell that is not \<open>contenteditable\<close>
  (the Date header) keeps its text.\<close>

definition type_header :: "nat \<Rightarrow> string \<Rightarrow> state \<Rightarrow> state" where
  "type_header i t st = (if editable (headers st ! i) then set_header_text i t st else st)"

text \<open>The \<open>map\<close> callback that renames a key of a row.\<close>

definition rename_key :: "string \<Rightarrow> string \<Rightarrow> row \<Rightarrow> row" where
  "rename_key oldKey newKey rw =
     (if obj_has rw oldKey then obj_delete (obj_set rw newKey (obj_get rw oldKey)) oldKey
      else rw)"

definition repoint :: "string \<Rightarrow> string \<Rightarrow> select \<Rightarrow> select" where
  "repoint oldKey newTitle s = (if select_value s = oldKey then select_set_value s newTitle else s)"

definition header_blur :: "nat \<Rightarrow> state \<Rightarrow> state" where
  "header_blur i st =
     (let newTitle = trim (header_text (headers st ! i));
          oldKey = data_column (headers st ! i)
      in if newTitle = [] \<or> oldKey = [] then
           (if oldKey \<noteq> [] then set_header_text i oldKey st else st)
         else if newTitle = oldKey then st
         else
           (let newKey = newTitle;
                existingColumns = getColumnHeaders st
            in if newKey = ''Date'' \<or> (newKey \<noteq> oldKey \<and> newKey \<in> set existingColumns)
               then set_header_text i oldKey st
               else
                 (let st1 = st\<lparr>xAxisSelect := repoint oldKey newTitle (xAxisSelect st),
                                yAxis1Select := repoint oldKey newTitle (yAxis1Select st),
                                yAxis2Select := repoint oldKey newTitle (yAxis2Select st)\<rparr>;
                      st2 = (if select_value (xAxisSelect st1) = newTitle \<or>
                                select_value (yAxis1Select st1) = newTitle \<or>
                                select_value (yAxis2Select st1) = newTitle
                             then updatePlot st1 else st1);
                      currentX = select_value (xAxisSelect st2);
                      currentY1 = select_value (yAxis1Select st2);
                      currentY2 = select_value (yAxis2Select st2);
                      updatedData = map (rename_key oldKey newKey) (tableData st2);
                      st3 = st2\<lparr>tableData := updatedData,
                                 headers := (headers st2)[i := (headers st2 ! i)\<lparr>data_column := newKey\<rparr>],
                                 inputs := set_input_id oldKey newKey (inputs st2),
                                 requests := requests st2 @ [ReplaceData updatedData]\<rparr>
                  in updatePlot
                       (updateDropdownSelectors
                          (Some (if currentX = oldKey then newKey else currentX))
                          (Some (if currentY1 = oldKey then newKey else currentY1))
                          (Some (if currentY2 = oldKey then newKey else currentY2))
                          st3))))"

text \<open>Renaming as the user does it: type the new title into header \<open>i\<close>, then leave
  the cell.\<close>

definition rename_column :: "nat \<Rightarrow> string \<Rightarrow> state \<Rightarrow> state" where
  "rename_column i t st = header_blur i (type_header i t st)"

subsection \<open>addColumn\<close>

definition addColumn :: "state \<Rightarrow> state" where
  "addColumn st =
     (let newColumnKey = ''Variable '' @ string_of_nat (columnCounter st);
          td = map (\<lambda>rw. obj_set rw newColumnKey (Num (Fin 0))) (tableData st);
          st1 = st\<lparr>columnCounter := Suc (columnCounter st),
                    headers := headers st @
                      [\<lparr>data_column = newColumnKey, header_text = newColumnKey, editable = True\<rparr>],
                    inputs := inputs st @
                      [\<lparr>input_id = newColumnKey, input_kind = NumberInput, input_text = []\<rparr>],
                    tableData := td,
                    requests := requests st @ [ReplaceData td]\<rparr>
      in updateDropdownSelectors None None None (renderTableRows st1))"

subsection \<open>addRow\<close>

text \<open>The value \<open>addRow\<close> stores for a column other than Date.\<close>

definition input_number :: "input_el list \<Rightarrow> string \<Rightarrow> number" where
  "input_number els key =
     (let v = (case find_input key els of None \<Rightarrow> [] | Some i \<Rightarrow> input_value i)
      in if v \<noteq> [] \<and> trim v \<noteq> [] then parseFloat v else Fin 0)"

text \<open>The object \<open>newRow\<close>: the date, then one value per column of the header
  order other than Date.\<close>

definition new_row :: "string \<Rightarrow> input_el list \<Rightarrow> string list \<Rightarrow> row" where
  "new_row date els columnOrder =
     foldl (\<lambda>rw key. if key \<noteq> ''Date'' then obj_set rw key (Num (input_number els key))
                      else rw)
       [(''Date'', Str date)] columnOrder"

definition addRow :: "env \<Rightarrow> state \<Rightarrow> error + state" where
  "addRow e st =
     (case find_input ''Date'' (inputs st) of
        None \<Rightarrow> Inl TypeError
      | Some dateInput \<Rightarrow>
          (let date0 = input_value dateInput;
               today = getTodayLocal e;
               date = (if date0 = [] then today else date0);
               els1 = (if date0 = [] then set_input_text ''Date'' today (inputs st)
                       else inputs st);
               columnOrder = getColumnHeaders st;
               newRow = new_row date els1 columnOrder;
               els2 = foldl (\<lambda>els col. if col \<noteq> ''Date'' then set_input_text col [] els
                                         else els)
                        (set_input_text ''Date'' [] els1) columnOrder
           in Inr (updatePlot (renderTableRows
                     (st\<lparr>tableData := tableData st @ [newRow],
                         inputs := els2,
                         requests := requests st @ [AddRow newRow]\<rparr>)))))"

subsection \<open>Loading the page\<close>

definition mk_header :: "string \<Rightarrow> header" where
  "mk_header col = \<lparr>data_column = col, header_text = col, editable = (col \<noteq> ''Date'')\<rparr>"

definition mk_input :: "env \<Rightarrow> string \<Rightarrow> input_el" where
  "mk_input e col =
     (if col = ''Date''
      then \<lparr>input_id = col, input_kind = DateInput, input_text = getTodayLocal e\<rparr>
      else \<lparr>input_id = col, input_kind = NumberInput, input_text = []\<rparr>)"

definition updateTableHeaders :: "state \<Rightarrow> state" where
  "updateTableHeaders st = st\<lparr>headers := map mk_header (getColumnHeaders st)\<rparr>"

definition updateInputRow :: "env \<Rightarrow> state \<Rightarrow> state" where
  "updateInputRow e st = st\<lparr>inputs := map (mk_input e) (getColumnHeaders st)\<rparr>"

text \<open>The \<open>DOMContentLoaded\<close> handler, given the rows that \<open>get_data\<close> returned.\<close>

definition load :: "env \<Rightarrow> row list \<Rightarrow> state" where
  "load e data =
     (let columns = (if data \<noteq> []
                     then ''Date'' # filter (\<lambda>col. col \<noteq> ''Date'') (object_keys (hd data))
                     else default_columns);
          st0 = \<lparr>tableData = data,
                 columnCounter = length columns,
                 headers = map mk_header columns,
                 inputs = map (mk_input e) columns,
                 tbody = [],
                 generation = 0,
                 xAxisSelect = empty_select,
                 yAxis1Select = empty_select,
                 yAxis2Select = empty_select,
                 requests = [],
                 plot = None\<rparr>
      in updatePlot
           (updateDropdownSelectors None None None
              (renderTableRows (updateInputRow e (updateTableHeaders st0)))))"

text \<open>The user picks an option of the X-axis dropdown (the \<open>change\<close> listener redraws
  the plot).\<close>

definition choose_x :: "string \<Rightarrow> state \<Rightarrow> state" where
  "choose_x v st = updatePlot (st\<lparr>xAxisSelect := select_set_value (xAxisSelect st) v\<rparr>)"

text \<open>The user types a text into the input with id \<open>k\<close>.\<close>

definition type_input :: "string \<Rightarrow> string \<Rightarrow> state \<Rightarrow> state" where
  "type_input k t st = st\<lparr>inputs := set_input_text k t (inputs st)\<rparr>"

subsection \<open>Reading the result of a handler\<close>

definition accepted :: "error + edit \<Rightarrow> bool" where
  "accepted out = (case out of Inr (Accepted s p) \<Rightarrow> True | _ \<Rightarrow> False)"

text \<open>The state after a cell handler has run on \<open>st\<close>; a handler that raised has
  changed nothing.\<close>

definition state_after :: "state \<Rightarrow> error + edit \<Rightarrow> state" where
  "state_after st out =
     (case out of Inl e \<Rightarrow> st | Inr (Rejected s) \<Rightarrow> s | Inr (Accepted s p) \<Rightarrow> s)"

definition pending_of :: "error + edit \<Rightarrow> pending option" where
  "pending_of out = (case out of Inr (Accepted s p) \<Rightarrow> Some p | _ \<Rightarrow> None)"

definition settled_state :: "state \<Rightarrow> error + state \<Rightarrow> state" where
  "settled_state st out = (case out of Inl e \<Rightarrow> st | Inr s \<Rightarrow> s)"

text \<open>A cell edit from typing to the end of its request: the text is committed and,
  when it was accepted, the request settles with the given reply.\<close>

definition edit_cell :: "nat \<Rightarrow> nat \<Rightarrow> string \<Rightarrow> reply \<Rightarrow> state \<Rightarrow> state" where
  "edit_cell r c t rp st =
     (let out = commit_cell r c t st; s = state_after st out
      in case pending_of out of
           None \<Rightarrow> s
         | Some p \<Rightarrow> settled_state s (edit_settled p rp s))"

definition cell_text_at :: "nat \<Rightarrow> nat \<Rightarrow> state \<Rightarrow> string" where
  "cell_text_at r c st = cell_text (body_cells (tbody st ! r) ! c)"




subsection \<open>Example states\<close>

text \<open>A device at 2024-05-10 08:00 UTC, once on UTC and once one hour east of it
  (09:00 local time on 2024-05-10).\<close>

definition env_utc :: env where
  "env_utc = \<lparr>now_ms = 1715328000000, tz_offset_min = 0\<rparr>"

definition env_east :: env where
  "env_east = \<lparr>now_ms = 1715328000000, tz_offset_min = 60\<rparr>"

definition row_a :: row where
  "row_a = [(''Date'', Str ''2024-01-01''), (''Variable 1'', Num (Fin 1)),
            (''Variable 2'', Num (Fin 2))]"

text \<open>The page loaded with one row of the default columns.\<close>

definition loaded :: state where
  "loaded = load env_utc [row_a]"





text \<open>The loaded page with the \<open>data-row-index\<close> attribute of its body row set to
  \<open>-2\<close> from outside the script.\<close>

definition tampered :: state where
  "tampered = loaded\<lparr>tbody := map (\<lambda>tr. tr\<lparr>row_index_attr := Some ''-2''\<rparr>) (tbody loaded)\<rparr>"

text \<open>The loaded page with the \<open>data-row-index\<close> attribute of its body row
  removed.\<close>

definition unindexed :: state where
  "unindexed = loaded\<lparr>tbody := map (\<lambda>tr. tr\<lparr>row_index_attr := None\<rparr>) (tbody loaded)\<rparr>"

text \<open>The loaded page after the user has changed the Variable 1 cell of the row to 10
  and the backend has confirmed the edit.\<close>

definition edited :: state where
  "edited = edit_cell 0 1 ''10'' Success loaded"

section \<open>Properties\<close>

subsection \<open>What each function leaves unchanged\<close>

lemma getColumnHeaders_cong:
  "headers st' = headers st \<Longrightarrow> tableData st' = tableData st \<Longrightarrow>
   getColumnHeaders st' = getColumnHeaders st"
  by (simp add: getColumnHeaders_def Let_def)

lemma updatePlot_frame [simp]:
  "tableData (updatePlot st) = tableData st"
  "columnCounter (updatePlot st) = columnCounter st"
  "headers (updatePlot st) = headers st"
  "inputs (updatePlot st) = inputs st"
  "tbody (updatePlot st) = tbody st"
  "generation (updatePlot st) = generation st"
  "xAxisSelect (updatePlot st) = xAxisSelect st"
  "yAxis1Select (updatePlot st) = yAxis1Select st"
  "yAxis2Select (updatePlot st) = yAxis2Select st"
  "requests (updatePlot st) = requests st"
  unfolding updatePlot_def Let_def by simp_all

lemma updateDropdownSelectors_frame [simp]:
  "tableData (updateDropdownSelectors a b c st) = tableData st"
  "columnCounter (updateDropdownSelectors a b c st) = columnCounter st"
  "headers (updateDropdownSelectors a b c st) = headers st"
  "inputs (updateDropdownSelectors a b c st) = inputs st"
  "tbody (updateDropdownSelectors a b c st) = tbody st"
  "generation (updateDropdownSelectors a b c st) = generation st"
  "requests (updateDropdownSelectors a b c st) = requests st"
  "plot (updateDropdownSelectors a b c st) = plot st"
  by (simp_all add: updateDropdownSelectors_def Let_def)

lemma renderTableRows_frame [simp]:
  "tableData (renderTableRows st) = tableData st"
  "columnCounter (renderTableRows st) = columnCounter st"
  "headers (renderTableRows st) = headers st"
  "inputs (renderTableRows st) = inputs st"
  "generation (renderTableRows st) = Suc (generation st)"
  "xAxisSelect (renderTableRows st) = xAxisSelect st"
  "yAxis1Select (renderTableRows st) = yAxis1Select st"
  "yAxis2Select (renderTableRows st) = yAxis2Select st"
  "requests (renderTableRows st) = requests st"
  "plot (renderTableRows st) = plot st"
  by (simp_all add: renderTableRows_def Let_def)

lemma set_cell_text_frame [simp]:
  "tableData (set_cell_text r c t st) = tableData st"
  "columnCounter (set_cell_text r c t st) = columnCounter st"
  "headers (set_cell_text r c t st) = headers st"
  "inputs (set_cell_text r c t st) = inputs st"
  "generation (set_cell_text r c t st) = generation st"
  "xAxisSelect (set_cell_text r c t st) = xAxisSelect st"
  "yAxis1Select (set_cell_text r c t st) = yAxis1Select st"
  "yAxis2Select (set_cell_text r c t st) = yAxis2Select st"
  "requests (set_cell_text r c t st) = requests st"
  "plot (set_cell_text r c t st) = plot st"
  by (simp_all add: set_cell_text_def)

lemma getColumnHeaders_frame [simp]:
  "getColumnHeaders (updatePlot st) = getColumnHeaders st"
  "getColumnHeaders (updateDropdownSelectors a b c st) = getColumnHeaders st"
  "getColumnHeaders (renderTableRows st) = getColumnHeaders st"
  "getColumnHeaders (set_cell_text r k t st) = getColumnHeaders st"
  by (rule getColumnHeaders_cong; simp)+

lemma set_cell_text_cell:
  assumes "r < length (tbody st)" and "c < length (body_cells (tbody st ! r))"
  shows "body_cells (tbody (set_cell_text r c t st) ! r) ! c =
           (body_cells (tbody st ! r) ! c)\<lparr>cell_text := t\<rparr>"
    and "row_index_attr (tbody (set_cell_text r c t st) ! r) = row_index_attr (tbody st ! r)"
    and "length (tbody (set_cell_text r c t st)) = length (tbody st)"
    and "length (body_cells (tbody (set_cell_text r c t st) ! r)) = length (body_cells (tbody st ! r))"
  using assms by (simp_all add: set_cell_text_def)

subsection \<open>Loading\<close>

lemma updateTableHeaders_frame [simp]:
  "tableData (updateTableHeaders st) = tableData st"
  "columnCounter (updateTableHeaders st) = columnCounter st"
  "inputs (updateTableHeaders st) = inputs st"
  "tbody (updateTableHeaders st) = tbody st"
  "generation (updateTableHeaders st) = generation st"
  "requests (updateTableHeaders st) = requests st"
  "headers (updateTableHeaders st) = map mk_header (getColumnHeaders st)"
  by (simp_all add: updateTableHeaders_def)

lemma updateInputRow_frame [simp]:
  "tableData (updateInputRow e st) = tableData st"
  "columnCounter (updateInputRow e st) = columnCounter st"
  "headers (updateInputRow e st) = headers st"
  "tbody (updateInputRow e st) = tbody st"
  "generation (updateInputRow e st) = generation st"
  "requests (updateInputRow e st) = requests st"
  "inputs (updateInputRow e st) = map (mk_input e) (getColumnHeaders st)"
  by (simp_all add: updateInputRow_def)

lemma getColumnHeaders_updateInputRow [simp]:
  "getColumnHeaders (updateInputRow e st) = getColumnHeaders st"
  by (rule getColumnHeaders_cong; simp)

lemma data_column_mk_header [simp]:
  "data_column (mk_header col) = col"
  "map data_column (map mk_header cols) = cols"
  "map (data_column \<circ> mk_header) cols = cols"
  by (induction cols) (simp_all add: mk_header_def)

lemma getColumnHeaders_headers:
  "headers st = map mk_header cols \<Longrightarrow> cols \<noteq> [] \<Longrightarrow> list_all (\<lambda>col. col \<noteq> []) cols \<Longrightarrow>
   getColumnHeaders st = cols"
  by (simp add: getColumnHeaders_def Let_def)

lemma default_columns_ok [simp]:
  "default_columns \<noteq> []" "list_all (\<lambda>col. col \<noteq> []) default_columns"
  by (simp_all add: default_columns_def)

lemma object_keys_row_a: "object_keys row_a = default_columns"
  by (simp add: object_keys_def row_a_def default_columns_def is_array_index_def is_digit_def)

text \<open>The state of the page after loading: the rows the server sent, the columns of the
  first row, Date first.\<close>

lemma load_state:
  assumes "cols = (if data \<noteq> [] then ''Date'' # filter (\<lambda>col. col \<noteq> ''Date'') (object_keys (hd data))
                   else default_columns)"
    and "list_all (\<lambda>col. col \<noteq> []) cols"
  shows "tableData (load e data) = data"
    and "columnCounter (load e data) = length cols"
    and "headers (load e data) = map mk_header cols"
    and "getColumnHeaders (load e data) = cols"
    and "inputs (load e data) = map (mk_input e) cols"
    and "requests (load e data) = []"
    and "generation (load e data) = 1"
proof -
  define st0 where "st0 = \<lparr>tableData = data, columnCounter = length cols,
      headers = map mk_header cols, inputs = map (mk_input e) cols, tbody = [],
      generation = 0, xAxisSelect = empty_select, yAxis1Select = empty_select,
      yAxis2Select = empty_select, requests = [], plot = None\<rparr>"
  have ld: "load e data = updatePlot (updateDropdownSelectors None None None
              (renderTableRows (updateInputRow e (updateTableHeaders st0))))"
    unfolding load_def st0_def Let_def assms(1) by (rule refl)
  have ne: "cols \<noteq> []" using assms(1) by (auto simp: default_columns_def)
  have g0: "getColumnHeaders st0 = cols"
    by (rule getColumnHeaders_headers) (simp_all add: st0_def ne assms(2))
  have g1: "getColumnHeaders (updateTableHeaders st0) = cols"
    by (rule getColumnHeaders_headers) (simp_all add: g0 ne assms(2))
  show "tableData (load e data) = data" by (simp add: ld) (simp add: st0_def)
  show "columnCounter (load e data) = length cols" by (simp add: ld) (simp add: st0_def)
  show "headers (load e data) = map mk_header cols" by (simp add: ld g0)
  show "getColumnHeaders (load e data) = cols" by (simp add: ld g1)
  show "inputs (load e data) = map (mk_input e) cols" by (simp add: ld g1)
  show "requests (load e data) = []" by (simp add: ld) (simp add: st0_def)
  show "generation (load e data) = 1" by (simp add: ld) (simp add: st0_def)
qed

lemma digits_of_small: "n < 10 \<Longrightarrow> digits_of n = [digit_char n]"
  by (subst digits_of.simps) simp

lemma digits_of_step: "10 \<le> n \<Longrightarrow> digits_of n = digits_of (n div 10) @ [digit_char (n mod 10)]"
  by (subst digits_of.simps) simp

lemma string_of_nat_small [simp]:
  "string_of_nat 0 = ''0''" "string_of_nat 1 = ''1''" "string_of_nat 2 = ''2''"
  "string_of_nat 3 = ''3''" "string_of_nat 4 = ''4''"
  by (simp_all add: string_of_nat_def digits_of_small digit_char_def)

lemma tbody_renderTableRows:
  "tbody (renderTableRows st) =
     map (\<lambda>(rw, dataIndex).
            \<lparr>row_index_attr = Some (string_of_nat dataIndex),
             body_cells = map (render_cell rw) (getColumnHeaders st)\<rparr>)
         (zip (tableData st) [0..<length (tableData st)])"
  by (simp add: renderTableRows_def Let_def)

lemma selects_updateDropdownSelectors_default:
  assumes "getColumnHeaders st = default_columns"
  shows "xAxisSelect (updateDropdownSelectors None None None st) =
           \<lparr>sel_options = default_columns, sel_selected = Some ''Date''\<rparr>"
    and "yAxis1Select (updateDropdownSelectors None None None st) =
           \<lparr>sel_options = [''Variable 1'', ''Variable 2''], sel_selected = Some ''Variable 1''\<rparr>"
    and "yAxis2Select (updateDropdownSelectors None None None st) =
           \<lparr>sel_options = [''Variable 1'', ''Variable 2''], sel_selected = Some ''Variable 2''\<rparr>"
  by (simp_all add: updateDropdownSelectors_def assms default_columns_def Let_def wanted_def
        select_append_def empty_select_def select_set_value_def select_value_def
        first_or_def first_or_undefined_def)

lemma loaded_cols:
  "(if [row_a] \<noteq> [] then ''Date'' # filter (\<lambda>col. col \<noteq> ''Date'') (object_keys (hd [row_a]))
    else default_columns) = default_columns"
  by (simp add: object_keys_row_a) (simp add: default_columns_def)

lemma loaded_state:
  "tableData loaded = [row_a]"
  "columnCounter loaded = 3"
  "headers loaded = map mk_header default_columns"
  "getColumnHeaders loaded = default_columns"
  "inputs loaded = map (mk_input env_utc) default_columns"
  "requests loaded = []"
  "generation loaded = 1"
  unfolding loaded_def
  using load_state [of default_columns "[row_a]" env_utc, OF loaded_cols [symmetric]]
  by (simp_all add: default_columns_def)

lemma loaded_page:
  "tbody loaded =
     [\<lparr>row_index_attr = Some ''0'',
       body_cells = [render_cell row_a ''Date'', render_cell row_a ''Variable 1'',
                     render_cell row_a ''Variable 2'']\<rparr>]"
  "xAxisSelect loaded = \<lparr>sel_options = default_columns, sel_selected = Some ''Date''\<rparr>"
  "yAxis1Select loaded =
     \<lparr>sel_options = [''Variable 1'', ''Variable 2''], sel_selected = Some ''Variable 1''\<rparr>"
  "yAxis2Select loaded =
     \<lparr>sel_options = [''Variable 1'', ''Variable 2''], sel_selected = Some ''Variable 2''\<rparr>"
proof -
  define st0 where "st0 = \<lparr>tableData = [row_a], columnCounter = length default_columns,
      headers = map mk_header default_columns, inputs = map (mk_input env_utc) default_columns,
      tbody = [], generation = 0, xAxisSelect = empty_select, yAxis1Select = empty_select,
      yAxis2Select = empty_select, requests = [], plot = None\<rparr>"
  define st1 where "st1 = renderTableRows (updateInputRow env_utc (updateTableHeaders st0))"
  have ld: "loaded = updatePlot (updateDropdownSelectors None None None st1)"
    unfolding loaded_def load_def st0_def st1_def Let_def loaded_cols by (rule refl)
  have g0: "getColumnHeaders st0 = default_columns"
    by (rule getColumnHeaders_headers) (simp_all add: st0_def)
  have g1: "getColumnHeaders (updateTableHeaders st0) = default_columns"
    by (rule getColumnHeaders_headers) (simp_all add: g0)
  have g2: "getColumnHeaders st1 = default_columns"
    by (simp add: st1_def g1)
  have td: "tableData (updateInputRow env_utc (updateTableHeaders st0)) = [row_a]"
    by (simp add: st0_def)
  show "tbody loaded =
     [\<lparr>row_index_attr = Some ''0'',
       body_cells = [render_cell row_a ''Date'', render_cell row_a ''Variable 1'',
                     render_cell row_a ''Variable 2'']\<rparr>]"
    by (simp add: ld st1_def tbody_renderTableRows td g1) (simp add: default_columns_def st0_def)
  show "xAxisSelect loaded = \<lparr>sel_options = default_columns, sel_selected = Some ''Date''\<rparr>"
    by (simp add: ld selects_updateDropdownSelectors_default [OF g2])
  show "yAxis1Select loaded =
     \<lparr>sel_options = [''Variable 1'', ''Variable 2''], sel_selected = Some ''Variable 1''\<rparr>"
    by (simp add: ld selects_updateDropdownSelectors_default [OF g2])
  show "yAxis2Select loaded =
     \<lparr>sel_options = [''Variable 1'', ''Variable 2''], sel_selected = Some ''Variable 2''\<rparr>"
    by (simp add: ld selects_updateDropdownSelectors_default [OF g2])
qed

subsection \<open>Adding a row\<close>

lemma obj_get_obj_set [simp]:
  "obj_get (obj_set rw k v) k' = (if k' = k then v else obj_get rw k')"
  by (simp add: obj_get_def obj_set_def update_conv')

lemma obj_get_new_row:
  "obj_get (new_row date els cols) key =
     (if key \<in> set cols \<and> key \<noteq> ''Date'' then Num (input_number els key)
      else if key = ''Date'' then Str date else Undefined)"
proof -
  have "obj_get (foldl (\<lambda>rw key. if key \<noteq> ''Date'' then obj_set rw key (Num (input_number els key))
                                  else rw) r0 cols) key =
          (if key \<in> set cols \<and> key \<noteq> ''Date'' then Num (input_number els key)
           else obj_get r0 key)" for r0
    by (induction cols arbitrary: r0) auto
  then show ?thesis
    by (simp add: new_row_def) (simp add: obj_get_def)
qed

lemma addRow_result:
  assumes "find_input ''Date'' (inputs st) = Some d"
  shows "\<exists>st'. addRow e st = Inr st' \<and>
           tableData st' = tableData st @
             [new_row (if input_value d = [] then getTodayLocal e else input_value d)
                (if input_value d = [] then set_input_text ''Date'' (getTodayLocal e) (inputs st)
                 else inputs st)
                (getColumnHeaders st)]"
  by (simp add: addRow_def assms Let_def)



lemma today_east: "getTodayLocal env_east = ''2024-05-09''"
  by code_simp

lemma local_date_east: "local_date env_east = (2024, 5, 10)"
  by code_simp

subsection \<open>The date of a new row\<close>

lemma loaded_date_input_cleared:
  "find_input ''Date'' (inputs (type_input ''Date'' [] loaded)) =
     Some \<lparr>input_id = ''Date'', input_kind = DateInput, input_text = []\<rparr>"
  by (simp add: type_input_def loaded_state default_columns_def mk_input_def find_input_def)

text \<open>
  C7. With an empty Date input \<open>addRow\<close> stores \<open>getTodayLocal()\<close>. On a device one hour
  east of UTC, at 09:00 local time on 2024-05-10, the local date is 2024-05-10 but
  \<open>getTodayLocal()\<close> is 2024-05-09, and that is the Date of the new row: local midnight,
  printed by \<open>toISOString()\<close> in UTC, falls on the previous day.
\<close>

theorem addRow_empty_date_east_of_utc:
  "local_date env_east = (2024, 5, 10) \<and>
   getTodayLocal env_east = ''2024-05-09'' \<and>
   (\<exists>st'. addRow env_east (type_input ''Date'' [] loaded) = Inr st' \<and>
          length (tableData st') = Suc (length (tableData loaded)) \<and>
          obj_get (last (tableData st')) ''Date'' = Str ''2024-05-09'')"
proof -
  let ?d = "\<lparr>input_id = ''Date'', input_kind = DateInput, input_text = []\<rparr>"
  have v: "input_value ?d = []"
    by (simp add: input_value_def valid_date_string_def)
  obtain st' where r: "addRow env_east (type_input ''Date'' [] loaded) = Inr st'"
    and td: "tableData st' = tableData (type_input ''Date'' [] loaded) @
       [new_row (getTodayLocal env_east)
          (set_input_text ''Date'' (getTodayLocal env_east) (inputs (type_input ''Date'' [] loaded)))
          (getColumnHeaders (type_input ''Date'' [] loaded))]"
    using addRow_result [OF loaded_date_input_cleared, of env_east] v by auto
  have "obj_get (last (tableData st')) ''Date'' = Str ''2024-05-09''"
    by (simp add: td obj_get_new_row today_east)
  moreover have "length (tableData st') = Suc (length (tableData loaded))"
    by (simp add: td type_input_def)
  ultimately show ?thesis
    using r local_date_east today_east by blast
qed

subsection \<open>Number inputs\<close>








lemma type_input_frame [simp]:
  "tableData (type_input k t st) = tableData st"
  "headers (type_input k t st) = headers st"
  "columnCounter (type_input k t st) = columnCounter st"
  "tbody (type_input k t st) = tbody st"
  "inputs (type_input k t st) = set_input_text k t (inputs st)"
  by (simp_all add: type_input_def)

lemma getColumnHeaders_type_input [simp]:
  "getColumnHeaders (type_input k t st) = getColumnHeaders st"
  by (rule getColumnHeaders_cong; simp)



subsection \<open>Sorting for the plot\<close>

lemma mset_insert_sorted [simp]: "mset (insert_sorted cmp x ys) = add_mset x (mset ys)"
  by (induction ys) simp_all

lemma set_insert_sorted [simp]: "set (insert_sorted cmp x ys) = insert x (set ys)"
  by (induction ys) auto

lemma mset_array_sort [simp]: "mset (array_sort cmp xs) = mset xs"
  by (induction xs) (simp_all add: array_sort_def)

lemma set_array_sort [simp]: "set (array_sort cmp xs) = set xs"
  by (metis mset_array_sort set_mset_mset)













subsection \<open>Renaming a column\<close>

lemma map_update_same: "(map f xs)[i := f (xs ! i)] = map f xs"
  by (metis list_update_id map_update)

lemma set_header_text_frame [simp]:
  "tableData (set_header_text i t st) = tableData st"
  "columnCounter (set_header_text i t st) = columnCounter st"
  "inputs (set_header_text i t st) = inputs st"
  "tbody (set_header_text i t st) = tbody st"
  "generation (set_header_text i t st) = generation st"
  "xAxisSelect (set_header_text i t st) = xAxisSelect st"
  "yAxis1Select (set_header_text i t st) = yAxis1Select st"
  "yAxis2Select (set_header_text i t st) = yAxis2Select st"
  "requests (set_header_text i t st) = requests st"
  "plot (set_header_text i t st) = plot st"
  "length (headers (set_header_text i t st)) = length (headers st)"
  "map data_column (headers (set_header_text i t st)) = map data_column (headers st)"
  by (simp_all add: set_header_text_def map_update map_update_same)

lemma set_header_text_nth:
  "i < length (headers st) \<Longrightarrow>
   headers (set_header_text i t st) ! i = (headers st ! i)\<lparr>header_text := t\<rparr>"
  by (simp add: set_header_text_def)

lemma getColumnHeaders_set_header_text [simp]:
  "getColumnHeaders (set_header_text i t st) = getColumnHeaders st"
proof -
  have "(headers (set_header_text i t st) = []) = (headers st = [])"
    by (metis length_0_conv set_header_text_frame(11))
  then show ?thesis
    by (simp add: getColumnHeaders_def Let_def)
qed

lemma type_header_frame [simp]:
  "tableData (type_header i t st) = tableData st"
  "columnCounter (type_header i t st) = columnCounter st"
  "inputs (type_header i t st) = inputs st"
  "tbody (type_header i t st) = tbody st"
  "xAxisSelect (type_header i t st) = xAxisSelect st"
  "yAxis1Select (type_header i t st) = yAxis1Select st"
  "yAxis2Select (type_header i t st) = yAxis2Select st"
  "requests (type_header i t st) = requests st"
  "length (headers (type_header i t st)) = length (headers st)"
  "map data_column (headers (type_header i t st)) = map data_column (headers st)"
  "getColumnHeaders (type_header i t st) = getColumnHeaders st"
  by (simp_all add: type_header_def)

lemma type_header_nth:
  "i < length (headers st) \<Longrightarrow> editable (headers st ! i) \<Longrightarrow>
   headers (type_header i t st) ! i = (headers st ! i)\<lparr>header_text := t\<rparr>"
  by (simp add: type_header_def set_header_text_nth)




lemma sel_options_foldl_append [simp]:
  "sel_options (foldl select_append s cols) = sel_options s @ cols"
  by (induction cols arbitrary: s) (simp_all add: select_append_def)

lemma select_value_set_value [simp]:
  "select_value (select_set_value s v) = (if v \<in> set (sel_options s) then v else [])"
  by (simp add: select_value_def select_set_value_def)

lemma select_value_repoint:
  "select_value (repoint A B s) =
     (if select_value s = A then (if B \<in> set (sel_options s) then B else [])
      else select_value s)"
  by (simp add: repoint_def)

text \<open>The X selection after the dropdowns are rebuilt: the desired value when it is a
  column, else Date.\<close>

lemma xAxis_updateDropdownSelectors:
  "select_value (xAxisSelect (updateDropdownSelectors dX dY1 dY2 st)) =
     (if wanted dX (getColumnHeaders st) then the dX
      else if ''Date'' \<in> set (getColumnHeaders st) then ''Date'' else [])"
  by (simp add: updateDropdownSelectors_def Let_def empty_select_def wanted_def
        split: option.splits)

text \<open>What a committed rename does to the state.\<close>

lemma header_blur_commit:
  assumes "A = data_column (headers st ! i)" and "B = trim (header_text (headers st ! i))"
    and "A \<noteq> []" and "B \<noteq> []" and "B \<noteq> A" and "B \<noteq> ''Date''"
    and "B \<notin> set (getColumnHeaders st)"
  shows "tableData (header_blur i st) = map (rename_key A B) (tableData st)"
    and "headers (header_blur i st) = (headers st)[i := (headers st ! i)\<lparr>data_column := B\<rparr>]"
    and "columnCounter (header_blur i st) = columnCounter st"
    and "inputs (header_blur i st) = set_input_id A B (inputs st)"
    and "requests (header_blur i st) = requests st @ [ReplaceData (map (rename_key A B) (tableData st))]"
    and "select_value (xAxisSelect (header_blur i st)) =
          (let cur = select_value (repoint A B (xAxisSelect st));
               dx = (if cur = A then B else cur)
           in if dx \<noteq> [] \<and> dx \<in> set (getColumnHeaders (header_blur i st)) then dx
              else if ''Date'' \<in> set (getColumnHeaders (header_blur i st)) then ''Date''
              else [])"
proof -
  define st1 where "st1 = st\<lparr>xAxisSelect := repoint A B (xAxisSelect st),
                                yAxis1Select := repoint A B (yAxis1Select st),
                                yAxis2Select := repoint A B (yAxis2Select st)\<rparr>"
  define st2 where "st2 = (if select_value (xAxisSelect st1) = B \<or>
                                select_value (yAxis1Select st1) = B \<or>
                                select_value (yAxis2Select st1) = B
                             then updatePlot st1 else st1)"
  define st3 where "st3 = st2\<lparr>tableData := map (rename_key A B) (tableData st2),
                                 headers := (headers st2)[i := (headers st2 ! i)\<lparr>data_column := B\<rparr>],
                                 inputs := set_input_id A B (inputs st2),
                                 requests := requests st2 @
                                   [ReplaceData (map (rename_key A B) (tableData st2))]\<rparr>"
  define dx where "dx = (if select_value (xAxisSelect st2) = A then B else select_value (xAxisSelect st2))"
  define dy1 where "dy1 = (if select_value (yAxis1Select st2) = A then B else select_value (yAxis1Select st2))"
  define dy2 where "dy2 = (if select_value (yAxis2Select st2) = A then B else select_value (yAxis2Select st2))"
  have hb: "header_blur i st =
      updatePlot (updateDropdownSelectors (Some dx) (Some dy1) (Some dy2) st3)"
    unfolding header_blur_def Let_def st1_def st2_def st3_def dx_def dy1_def dy2_def
    using assms by simp
  have f2: "tableData st2 = tableData st" "headers st2 = headers st"
    "columnCounter st2 = columnCounter st" "inputs st2 = inputs st"
    "requests st2 = requests st" "xAxisSelect st2 = repoint A B (xAxisSelect st)"
    by (simp_all add: st2_def st1_def)
  show "tableData (header_blur i st) = map (rename_key A B) (tableData st)"
    by (simp add: hb) (simp add: st3_def f2)
  show "headers (header_blur i st) = (headers st)[i := (headers st ! i)\<lparr>data_column := B\<rparr>]"
    by (simp add: hb) (simp add: st3_def f2)
  show "columnCounter (header_blur i st) = columnCounter st"
    by (simp add: hb) (simp add: st3_def f2)
  show "inputs (header_blur i st) = set_input_id A B (inputs st)"
    by (simp add: hb) (simp add: st3_def f2)
  show "requests (header_blur i st) = requests st @ [ReplaceData (map (rename_key A B) (tableData st))]"
    by (simp add: hb) (simp add: st3_def f2)
  have g: "getColumnHeaders (header_blur i st) = getColumnHeaders st3"
    by (simp add: hb)
  show "select_value (xAxisSelect (header_blur i st)) =
          (let cur = select_value (repoint A B (xAxisSelect st));
               dx = (if cur = A then B else cur)
           in if dx \<noteq> [] \<and> dx \<in> set (getColumnHeaders (header_blur i st)) then dx
              else if ''Date'' \<in> set (getColumnHeaders (header_blur i st)) then ''Date''
              else [])"
    unfolding g using assms(3,4)
    by (auto simp: hb xAxis_updateDropdownSelectors wanted_def dx_def f2 Let_def)
qed

lemma getColumnHeaders_dom:
  "headers st \<noteq> [] \<Longrightarrow> list_all (\<lambda>col. col \<noteq> []) (map data_column (headers st)) \<Longrightarrow>
   getColumnHeaders st = map data_column (headers st)"
  by (simp add: getColumnHeaders_def Let_def)

lemma choose_x_frame [simp]:
  "tableData (choose_x v st) = tableData st"
  "columnCounter (choose_x v st) = columnCounter st"
  "headers (choose_x v st) = headers st"
  "inputs (choose_x v st) = inputs st"
  "tbody (choose_x v st) = tbody st"
  "requests (choose_x v st) = requests st"
  "xAxisSelect (choose_x v st) = select_set_value (xAxisSelect st) v"
  by (simp_all add: choose_x_def)

lemma getColumnHeaders_choose_x [simp]:
  "getColumnHeaders (choose_x v st) = getColumnHeaders st"
  by (rule getColumnHeaders_cong; simp)

lemma trim_plain:
  "trim ''Temp'' = ''Temp''" "trim ''Variable 3'' = ''Variable 3''"
  by (simp_all add: trim_def is_ws_def)

lemma loaded_headers:
  "headers loaded =
     [\<lparr>data_column = ''Date'', header_text = ''Date'', editable = False\<rparr>,
      \<lparr>data_column = ''Variable 1'', header_text = ''Variable 1'', editable = True\<rparr>,
      \<lparr>data_column = ''Variable 2'', header_text = ''Variable 2'', editable = True\<rparr>]"
  by (simp add: loaded_state default_columns_def mk_header_def)

text \<open>
  C3. On the loaded page with columns Date, Variable 1, Variable 2 the user selects
  Variable 1 as the X axis and then renames Variable 1 to Temp. The rename is committed
  (the row's value moves to the key Temp), but the X axis ends on Date, not on Temp:
  assigning the new title to the dropdown before it has such an option deselects
  everything, the selection then read back is empty, and the rebuilt dropdown falls back
  to its default.
\<close>

theorem rename_loses_x_axis:
  "select_value (xAxisSelect (choose_x ''Variable 1'' loaded)) = ''Variable 1'' \<and>
   getColumnHeaders (choose_x ''Variable 1'' loaded) = [''Date'', ''Variable 1'', ''Variable 2''] \<and>
   getColumnHeaders (rename_column 1 ''Temp'' (choose_x ''Variable 1'' loaded)) =
     [''Date'', ''Temp'', ''Variable 2''] \<and>
   map (\<lambda>rw. obj_get rw ''Temp'') (tableData (rename_column 1 ''Temp'' (choose_x ''Variable 1'' loaded))) =
     [Num (Fin 1)] \<and>
   select_value (xAxisSelect (rename_column 1 ''Temp'' (choose_x ''Variable 1'' loaded))) = ''Date''"
proof -
  let ?s = "choose_x ''Variable 1'' loaded"
  let ?t = "type_header (Suc 0) ''Temp'' ?s"
  have x: "select_set_value (xAxisSelect loaded) ''Variable 1'' = \<lparr>sel_options = default_columns, sel_selected = Some ''Variable 1''\<rparr>"
    by (simp add: loaded_page select_set_value_def default_columns_def)
  have h: "headers ?t =
     [\<lparr>data_column = ''Date'', header_text = ''Date'', editable = False\<rparr>,
      \<lparr>data_column = ''Variable 1'', header_text = ''Temp'', editable = True\<rparr>,
      \<lparr>data_column = ''Variable 2'', header_text = ''Variable 2'', editable = True\<rparr>]"
    by (simp add: type_header_def set_header_text_def loaded_headers)
  have gt: "getColumnHeaders ?t = default_columns"
    by (simp add: loaded_state)
  note c = header_blur_commit [of "''Variable 1''" ?t "Suc 0" "''Temp''"]
  have c1: "tableData (header_blur (Suc 0) ?t) = map (rename_key ''Variable 1'' ''Temp'') (tableData ?t)"
    by (rule c(1)) (simp_all add: h trim_plain loaded_state(4) default_columns_def)
  have c2: "headers (header_blur (Suc 0) ?t) = (headers ?t)[Suc 0 := (headers ?t ! Suc 0)\<lparr>data_column := ''Temp''\<rparr>]"
    by (rule c(2)) (simp_all add: h trim_plain loaded_state(4) default_columns_def)
  have c6: "select_value (xAxisSelect (header_blur (Suc 0) ?t)) =
          (let cur = select_value (repoint ''Variable 1'' ''Temp'' (xAxisSelect ?t));
               dx = (if cur = ''Variable 1'' then ''Temp'' else cur)
           in if dx \<noteq> [] \<and> dx \<in> set (getColumnHeaders (header_blur (Suc 0) ?t)) then dx
              else if ''Date'' \<in> set (getColumnHeaders (header_blur (Suc 0) ?t)) then ''Date''
              else [])"
    by (rule c(6)) (simp_all add: h trim_plain loaded_state(4) default_columns_def)
  have g: "getColumnHeaders (header_blur (Suc 0) ?t) = [''Date'', ''Temp'', ''Variable 2'']"
    by (subst getColumnHeaders_dom) (simp_all add: c2 h)
  have cur: "select_value (repoint ''Variable 1'' ''Temp''
                 (select_set_value (xAxisSelect loaded) ''Variable 1'')) = []"
    by (simp add: select_value_repoint x) (simp add: select_value_def default_columns_def)
  have r: "rename_column 1 ''Temp'' ?s = header_blur (Suc 0) ?t"
    by (simp add: rename_column_def)
  have v: "map (\<lambda>rw. obj_get rw ''Temp'') (tableData (header_blur (Suc 0) ?t)) = [Num (Fin 1)]"
    by (simp add: c1 loaded_state)
       (simp add: rename_key_def obj_has_def obj_set_def obj_get_def obj_delete_def row_a_def)
  have "select_value (xAxisSelect (header_blur (Suc 0) ?t)) = ''Date''"
    by (simp add: c6 cur g Let_def)
  then show ?thesis
    unfolding r using g v by (simp add: x select_value_def loaded_state default_columns_def)
qed

subsection \<open>Adding a column\<close>

text \<open>What \<open>addColumn\<close> does to the state.\<close>

lemma addColumn_state:
  assumes "key = ''Variable '' @ string_of_nat (columnCounter st)"
  shows "tableData (addColumn st) = map (\<lambda>rw. obj_set rw key (Num (Fin 0))) (tableData st)"
    and "headers (addColumn st) =
           headers st @ [\<lparr>data_column = key, header_text = key, editable = True\<rparr>]"
    and "columnCounter (addColumn st) = Suc (columnCounter st)"
  by (simp_all add: addColumn_def Let_def assms)

text \<open>
  C1. On the loaded page (columns Date, Variable 1, Variable 2; the counter is 3) the
  user renames Variable 1 to Variable 3 and then adds a column. \<open>addColumn\<close> names the
  new column Variable 3 as well: the identifier is already a column, the header order
  lists it twice, and the value 1 the row held under it is overwritten by 0.
\<close>

theorem addColumn_reuses_identifier:
  "columnCounter loaded = 3 \<and>
   getColumnHeaders loaded = [''Date'', ''Variable 1'', ''Variable 2''] \<and>
   getColumnHeaders (rename_column 1 ''Variable 3'' loaded) =
     [''Date'', ''Variable 3'', ''Variable 2''] \<and>
   map (\<lambda>rw. obj_get rw ''Variable 3'') (tableData (rename_column 1 ''Variable 3'' loaded)) =
     [Num (Fin 1)] \<and>
   getColumnHeaders (addColumn (rename_column 1 ''Variable 3'' loaded)) =
     [''Date'', ''Variable 3'', ''Variable 2'', ''Variable 3''] \<and>
   map (\<lambda>rw. obj_get rw ''Variable 3'')
     (tableData (addColumn (rename_column 1 ''Variable 3'' loaded))) = [Num (Fin 0)]"
proof -
  let ?t = "type_header (Suc 0) ''Variable 3'' loaded"
  let ?r = "header_blur (Suc 0) ?t"
  have h: "headers ?t =
     [\<lparr>data_column = ''Date'', header_text = ''Date'', editable = False\<rparr>,
      \<lparr>data_column = ''Variable 1'', header_text = ''Variable 3'', editable = True\<rparr>,
      \<lparr>data_column = ''Variable 2'', header_text = ''Variable 2'', editable = True\<rparr>]"
    by (simp add: type_header_def set_header_text_def loaded_headers)
  note c = header_blur_commit [of "''Variable 1''" ?t "Suc 0" "''Variable 3''"]
  have c1: "tableData ?r = map (rename_key ''Variable 1'' ''Variable 3'') (tableData ?t)"
    by (rule c(1)) (simp_all add: h trim_plain loaded_state(4) default_columns_def)
  have c2: "headers ?r = (headers ?t)[Suc 0 := (headers ?t ! Suc 0)\<lparr>data_column := ''Variable 3''\<rparr>]"
    by (rule c(2)) (simp_all add: h trim_plain loaded_state(4) default_columns_def)
  have c3: "columnCounter ?r = columnCounter ?t"
    by (rule c(3)) (simp_all add: h trim_plain loaded_state(4) default_columns_def)
  have r: "rename_column 1 ''Variable 3'' loaded = ?r"
    by (simp add: rename_column_def)
  have g1: "getColumnHeaders ?r = [''Date'', ''Variable 3'', ''Variable 2'']"
    by (subst getColumnHeaders_dom) (simp_all add: c2 h)
  have v1: "tableData ?r = [[(''Date'', Str ''2024-01-01''), (''Variable 2'', Num (Fin 2)),
                            (''Variable 3'', Num (Fin 1))]]"
    by (simp add: c1 loaded_state)
       (simp add: rename_key_def obj_has_def obj_set_def obj_get_def obj_delete_def row_a_def)
  have k: "''Variable '' @ string_of_nat (columnCounter ?r) = ''Variable 3''"
    by (simp add: c3 loaded_state)
  note a = addColumn_state [OF k [symmetric]]
  have g2: "getColumnHeaders (addColumn ?r) = [''Date'', ''Variable 3'', ''Variable 2'', ''Variable 3'']"
    by (subst getColumnHeaders_dom) (simp_all add: a(2) c2 h)
  have v2: "map (\<lambda>rw. obj_get rw ''Variable 3'') (tableData (addColumn ?r)) = [Num (Fin 0)]"
    by (simp add: a(1) v1)
  show ?thesis
    unfolding r using g1 g2 v2 by (simp add: v1 loaded_state default_columns_def obj_get_def)
qed

subsection \<open>Editing a cell\<close>

lemma set_cell_text_again:
  assumes "r < length (tbody st)" and "c < length (body_cells (tbody st ! r))"
  shows "set_cell_text r c t (set_cell_text r c t' st) = set_cell_text r c t st"
  using assms by (simp add: set_cell_text_def)

lemma cell_text_at_set [simp]:
  assumes "r < length (tbody st)" and "c < length (body_cells (tbody st ! r))"
  shows "cell_text_at r c (set_cell_text r c t st) = t"
  using assms by (simp add: cell_text_at_def set_cell_text_def)

lemma accepted_simps [simp]:
  "accepted (Inl e) = False"
  "accepted (Inr (Rejected s)) = False"
  "accepted (Inr (Accepted s p)) = True"
  by (simp_all add: accepted_def)

lemma state_after_simps [simp]:
  "state_after st (Inl e) = st"
  "state_after st (Inr (Rejected s)) = s"
  "state_after st (Inr (Accepted s p)) = s"
  by (simp_all add: state_after_def)

lemma pending_of_simps [simp]:
  "pending_of (Inl e) = None"
  "pending_of (Inr (Rejected s)) = None"
  "pending_of (Inr (Accepted s p)) = Some p"
  by (simp_all add: pending_of_def)

lemma settled_state_simps [simp]:
  "settled_state st (Inl e) = st"
  "settled_state st (Inr s) = s"
  by (simp_all add: settled_state_def)

text \<open>A reverted cell: nothing is accepted, the rows and the requests stay.\<close>

lemma revert_cell_effect:
  "\<not> accepted (revert_cell r c cl s)"
  "tableData s = tableData st \<Longrightarrow> tableData (state_after st (revert_cell r c cl s)) = tableData st"
  "requests s = requests st \<Longrightarrow> requests (state_after st (revert_cell r c cl s)) = requests st"
  "js_to_string (obj_get (cell_row cl) (cell_column cl)) = Some t \<Longrightarrow>
     revert_cell r c cl s = Inr (Rejected (set_cell_text r c t s))"
  by (simp_all add: revert_cell_def split: option.splits)

text \<open>The blur handler after the user has typed \<open>t\<close>, in terms of the cell as rendered.\<close>

lemma commit_cell_unfold:
  assumes "r < length (tbody st)" and "c < length (body_cells (tbody st ! r))"
  shows "commit_cell r c t st =
     (let st' = set_cell_text r c t st;
          cl = (body_cells (tbody st ! r) ! c)\<lparr>cell_text := t\<rparr>;
          rowIndex = row_index_of (tbody st ! r)
      in if rowIndex = Some (- 1) \<or> index_at_least rowIndex (length (tableData st))
         then revert_cell r c cl st'
         else if cell_column cl = ''Date'' then
           (if \<not> date_pattern (trim t) then revert_cell r c cl st'
            else Inr (commit_edit r c cl rowIndex (Str (trim t)) st'))
         else
           (if parseFloat (trim t) = NaN then revert_cell r c cl st'
            else Inr (commit_edit r c cl rowIndex (Num (parseFloat (trim t)))
                        (set_cell_text r c (number_to_string (parseFloat (trim t))) st'))))"
proof -
  have a: "row_index_of (tbody (set_cell_text r c t st) ! r) = row_index_of (tbody st ! r)"
    using assms by (simp add: row_index_of_def set_cell_text_cell)
  show ?thesis
    unfolding commit_cell_def cell_blur_def Let_def a
    using assms by (simp add: set_cell_text_cell)
qed

lemma array_valid_index [simp]:
  assumes "0 \<le> i" and "i < int (length xs)"
  shows "array_store xs (Some i) v = xs[nat i := v]"
    and "array_spread_at xs (Some i) = xs ! nat i"
    and "\<not> index_at_least (Some i) (length xs)"
  using assms by (simp_all add: array_store_def array_spread_at_def index_at_least_def)

text \<open>A cell of the Date column, on a row index inside the table: the trimmed text is
  stored when it matches the pattern, and the cell is reverted otherwise.\<close>

lemma commit_cell_date:
  assumes "r < length (tbody st)" and "c < length (body_cells (tbody st ! r))"
    and "row_index_of (tbody st ! r) = Some i" and "0 \<le> i" and "i < int (length (tableData st))"
    and "cell_column (body_cells (tbody st ! r) ! c) = ''Date''"
  shows "accepted (commit_cell r c t st) = date_pattern (trim t)"
    and "date_pattern (trim t) \<Longrightarrow>
           obj_get (tableData (state_after st (commit_cell r c t st)) ! nat i) ''Date'' = Str (trim t)"
    and "\<not> date_pattern (trim t) \<Longrightarrow>
           tableData (state_after st (commit_cell r c t st)) = tableData st"
  using assms
  by (simp_all add: commit_cell_unfold Let_def revert_cell_effect commit_edit_def)

text \<open>A cell of another column: the parsed number is stored unless it is \<open>NaN\<close>.\<close>

lemma commit_cell_number:
  assumes "r < length (tbody st)" and "c < length (body_cells (tbody st ! r))"
    and "row_index_of (tbody st ! r) = Some i" and "0 \<le> i" and "i < int (length (tableData st))"
    and "cell_column (body_cells (tbody st ! r) ! c) = k" and "k \<noteq> ''Date''"
  shows "accepted (commit_cell r c t st) = (parseFloat (trim t) \<noteq> NaN)"
    and "parseFloat (trim t) \<noteq> NaN \<Longrightarrow>
           obj_get (tableData (state_after st (commit_cell r c t st)) ! nat i) k =
             Num (parseFloat (trim t))"
    and "parseFloat (trim t) = NaN \<Longrightarrow>
           tableData (state_after st (commit_cell r c t st)) = tableData st"
  using assms
  by (simp_all add: commit_cell_unfold Let_def revert_cell_effect commit_edit_def)

lemma parseInt_small:
  "parseInt ''0'' = Some 0" "parseInt ''-1'' = Some (- 1)" "parseInt ''-2'' = Some (- 2)"
  by (simp_all add: parseInt_def is_ws_def is_digit_def digits_val_def digit_val_def)

lemma loaded_cells:
  "length (tbody loaded) = 1"
  "length (body_cells (tbody loaded ! 0)) = 3"
  "row_index_of (tbody loaded ! 0) = Some 0"
  "body_cells (tbody loaded ! 0) ! 0 = render_cell row_a ''Date''"
  "body_cells (tbody loaded ! 0) ! Suc 0 = render_cell row_a ''Variable 1''"
  "body_cells (tbody loaded ! 0) ! 2 = render_cell row_a ''Variable 2''"
  by (simp_all add: loaded_page row_index_of_def parseInt_small)

lemma render_cell_simps [simp]:
  "cell_column (render_cell rw key) = key"
  "cell_row (render_cell rw key) = rw"
  by (simp_all add: render_cell_def)

lemma texts:
  "trim ''2024-13-40'' = ''2024-13-40''" "date_pattern ''2024-13-40''"
  "trim '' 2024-02-01'' = ''2024-02-01''" "date_pattern ''2024-02-01''"
  "\<not> date_pattern '' 2024-02-01''"
  "trim ''01/02/2024'' = ''01/02/2024''" "\<not> date_pattern ''01/02/2024''"
  "trim ''abc'' = ''abc''" "parseFloat ''abc'' = NaN"
  "trim ''3.5'' = ''3.5''" "parseFloat ''3.5'' = Fin (7 / 2)"
  by (simp_all add: trim_def is_ws_def is_digit_def parseFloat_def digits_val_def digit_val_def
        scale10_def)

text \<open>
  C2 (as amended). For a cell of the Date column on a row index inside the table, the
  text is accepted if and only if its trimmed form matches \<open>^\d{4}-\d{2}-\d{2}$\<close>; a
  rejected text leaves the rows unchanged; \<open>2024-13-40\<close> matches the pattern and is
  accepted and stored. For a cell of any other column \<open>abc\<close> is rejected and leaves the
  rows unchanged, and \<open>3.5\<close> is accepted and stored as the number 3.5.
\<close>

theorem cell_commit_validation:
  assumes "r < length (tbody st)" and "c < length (body_cells (tbody st ! r))"
    and "row_index_of (tbody st ! r) = Some i" and "0 \<le> i" and "i < int (length (tableData st))"
    and "k = cell_column (body_cells (tbody st ! r) ! c)"
  shows "(k = ''Date'' \<longrightarrow>
            accepted (commit_cell r c t st) = date_pattern (trim t) \<and>
            (\<not> date_pattern (trim t) \<longrightarrow>
               tableData (state_after st (commit_cell r c t st)) = tableData st) \<and>
            accepted (commit_cell r c ''2024-13-40'' st) \<and>
            obj_get (tableData (state_after st (commit_cell r c ''2024-13-40'' st)) ! nat i) ''Date'' =
              Str ''2024-13-40'') \<and>
         (k \<noteq> ''Date'' \<longrightarrow>
            \<not> accepted (commit_cell r c ''abc'' st) \<and>
            tableData (state_after st (commit_cell r c ''abc'' st)) = tableData st \<and>
            accepted (commit_cell r c ''3.5'' st) \<and>
            obj_get (tableData (state_after st (commit_cell r c ''3.5'' st)) ! nat i) k =
              Num (Fin (7 / 2)))"
proof (intro conjI impI)
  assume d: "k = ''Date''"
  note cd = commit_cell_date [OF assms(1-5) d [unfolded assms(6)]]
  show "accepted (commit_cell r c t st) = date_pattern (trim t)" by (rule cd(1))
  show "tableData (state_after st (commit_cell r c t st)) = tableData st"
    if "\<not> date_pattern (trim t)" using that by (rule cd(3))
  show "accepted (commit_cell r c ''2024-13-40'' st)" by (simp add: cd(1) texts is_digit_def)
  show "obj_get (tableData (state_after st (commit_cell r c ''2024-13-40'' st)) ! nat i) ''Date'' =
          Str ''2024-13-40''"
    using cd(2) [of "''2024-13-40''"] by (simp add: texts is_digit_def)
next
  assume n: "k \<noteq> ''Date''"
  note cn = commit_cell_number [OF assms(1-5) assms(6) [symmetric] n]
  show "\<not> accepted (commit_cell r c ''abc'' st)" by (simp add: cn(1) texts is_digit_def)
  show "tableData (state_after st (commit_cell r c ''abc'' st)) = tableData st"
    by (rule cn(3)) (simp add: texts is_digit_def)
  show "accepted (commit_cell r c ''3.5'' st)" by (simp add: cn(1) texts is_digit_def)
  show "obj_get (tableData (state_after st (commit_cell r c ''3.5'' st)) ! nat i) k = Num (Fin (7 / 2))"
    using cn(2) [of "''3.5''"] by (simp add: texts is_digit_def)
qed

theorem cell_commit_validation_witness:
  "accepted (commit_cell 0 0 '' 2024-02-01'' loaded) \<and>
   \<not> accepted (commit_cell 0 0 ''01/02/2024'' loaded) \<and>
   tableData (state_after loaded (commit_cell 0 0 ''01/02/2024'' loaded)) = [row_a] \<and>
   \<not> accepted (commit_cell 0 1 ''abc'' loaded) \<and>
   tableData (state_after loaded (commit_cell 0 1 ''abc'' loaded)) = [row_a] \<and>
   accepted (commit_cell 0 1 ''3.5'' loaded) \<and>
   obj_get (tableData (state_after loaded (commit_cell 0 1 ''3.5'' loaded)) ! 0) ''Variable 1'' =
     Num (Fin (7 / 2))"
proof -
  have a: "accepted (commit_cell 0 0 '' 2024-02-01'' loaded)"
    using cell_commit_validation [of 0 loaded 0 0 "''Date''" "'' 2024-02-01''"]
    by (simp add: loaded_cells loaded_state texts is_digit_def)
  have b: "\<not> accepted (commit_cell 0 0 ''01/02/2024'' loaded) \<and>
           tableData (state_after loaded (commit_cell 0 0 ''01/02/2024'' loaded)) = [row_a]"
    using cell_commit_validation [of 0 loaded 0 0 "''Date''" "''01/02/2024''"]
    by (simp add: loaded_cells loaded_state texts is_digit_def)
  have c: "\<not> accepted (commit_cell 0 1 ''abc'' loaded) \<and>
   tableData (state_after loaded (commit_cell 0 1 ''abc'' loaded)) = [row_a] \<and>
   accepted (commit_cell 0 1 ''3.5'' loaded) \<and>
   obj_get (tableData (state_after loaded (commit_cell 0 1 ''3.5'' loaded)) ! 0) ''Variable 1'' =
     Num (Fin (7 / 2))"
    using cell_commit_validation [of 0 loaded 1 0 "''Variable 1''"]
    by (simp add: loaded_cells loaded_state)
  from a b c show ?thesis by simp
qed

text \<open>The claim as stated fails: \<open>2024-13-40\<close> on a Date cell matches the pattern and is
  accepted and stored, and a text with a leading space, which does not match the
  pattern, is accepted as well, because the handler trims it first.\<close>

theorem date_cell_counterexample:
  "date_pattern ''2024-13-40'' \<and>
   accepted (commit_cell 0 0 ''2024-13-40'' loaded) \<and>
   obj_get (tableData (state_after loaded (commit_cell 0 0 ''2024-13-40'' loaded)) ! 0) ''Date'' =
     Str ''2024-13-40'' \<and>
   \<not> date_pattern '' 2024-02-01'' \<and>
   accepted (commit_cell 0 0 '' 2024-02-01'' loaded)"
proof -
  note cd = commit_cell_date [of 0 loaded 0 0]
  have "accepted (commit_cell 0 0 ''2024-13-40'' loaded)"
    by (subst cd(1)) (simp_all add: loaded_cells loaded_state texts is_digit_def)
  moreover have "obj_get (tableData (state_after loaded (commit_cell 0 0 ''2024-13-40'' loaded)) ! nat 0)
      ''Date'' = Str (trim ''2024-13-40'')"
    by (rule cd(2)) (simp_all add: loaded_cells loaded_state texts is_digit_def)
  moreover have "accepted (commit_cell 0 0 '' 2024-02-01'' loaded)"
    by (subst cd(1)) (simp_all add: loaded_cells loaded_state texts is_digit_def)
  ultimately show ?thesis by (simp add: texts is_digit_def)
qed

subsection \<open>The row index guard\<close>

lemma row_index_missing:
  "row_index_attr tr = None \<or> row_index_attr tr = Some [] \<Longrightarrow> row_index_of tr = Some (- 1)"
  by (auto simp: row_index_of_def parseInt_small)

text \<open>
  C10 (as amended). When the \<open>data-row-index\<close> attribute is missing or empty, or its value
  parses to -1, or to an index not less than the number of rows, the blur handler does
  not accept the edit: the rows are not changed and no request is sent, and (the cell's
  row holding a value for the cell's column) the handler ends with the cell's text set
  back to that value.
\<close>

theorem cell_blur_index_guard:
  assumes "row_index_attr (tbody st ! r) = None \<or> row_index_attr (tbody st ! r) = Some [] \<or>
           row_index_of (tbody st ! r) = Some (- 1) \<or>
           (\<exists>i. row_index_of (tbody st ! r) = Some i \<and> int (length (tableData st)) \<le> i)"
    and "cl = body_cells (tbody st ! r) ! c"
  shows "\<not> accepted (cell_blur r c st) \<and>
         tableData (state_after st (cell_blur r c st)) = tableData st \<and>
         requests (state_after st (cell_blur r c st)) = requests st \<and>
         (\<forall>t. js_to_string (obj_get (cell_row cl) (cell_column cl)) = Some t \<longrightarrow>
              cell_blur r c st = Inr (Rejected (set_cell_text r c t st)))"
proof -
  from assms(1) have "row_index_of (tbody st ! r) = Some (- 1) \<or>
      index_at_least (row_index_of (tbody st ! r)) (length (tableData st))"
    using row_index_missing [of "tbody st ! r"] by (auto simp: index_at_least_def)
  then have "cell_blur r c st = revert_cell r c cl st"
    by (simp add: cell_blur_def Let_def assms(2))
  then show ?thesis
    by (simp add: revert_cell_effect)
qed

lemma unindexed_state:
  "tableData unindexed = [row_a]"
  "requests unindexed = []"
  "tbody unindexed =
     [\<lparr>row_index_attr = None,
       body_cells = [render_cell row_a ''Date'', render_cell row_a ''Variable 1'',
                     render_cell row_a ''Variable 2'']\<rparr>]"
  by (simp_all add: unindexed_def loaded_state loaded_page)

lemma tampered_state:
  "tableData tampered = [row_a]"
  "requests tampered = []"
  "tbody tampered =
     [\<lparr>row_index_attr = Some ''-2'',
       body_cells = [render_cell row_a ''Date'', render_cell row_a ''Variable 1'',
                     render_cell row_a ''Variable 2'']\<rparr>]"
  by (simp_all add: tampered_def loaded_state loaded_page)

theorem cell_blur_index_guard_witness:
  "\<not> accepted (cell_blur 0 1 (set_cell_text 0 1 ''7'' unindexed)) \<and>
   tableData (state_after (set_cell_text 0 1 ''7'' unindexed)
                (cell_blur 0 1 (set_cell_text 0 1 ''7'' unindexed))) = [row_a] \<and>
   requests (state_after (set_cell_text 0 1 ''7'' unindexed)
                (cell_blur 0 1 (set_cell_text 0 1 ''7'' unindexed))) = [] \<and>
   cell_blur 0 1 (set_cell_text 0 1 ''7'' unindexed) =
     Inr (Rejected (set_cell_text 0 1 ''1'' (set_cell_text 0 1 ''7'' unindexed)))"
proof -
  let ?st = "set_cell_text 0 (Suc 0) ''7'' unindexed"
  have t: "tbody ?st =
     [\<lparr>row_index_attr = None,
       body_cells = [render_cell row_a ''Date'',
                     (render_cell row_a ''Variable 1'')\<lparr>cell_text := ''7''\<rparr>,
                     render_cell row_a ''Variable 2'']\<rparr>]"
    by (simp add: set_cell_text_def unindexed_state)
  have a: "row_index_attr (tbody ?st ! 0) = None \<or> row_index_attr (tbody ?st ! 0) = Some [] \<or>
           row_index_of (tbody ?st ! 0) = Some (- 1) \<or>
           (\<exists>i. row_index_of (tbody ?st ! 0) = Some i \<and> int (length (tableData ?st)) \<le> i)"
    by (simp add: t)
  have v: "js_to_string (obj_get (cell_row (body_cells (tbody ?st ! 0) ! Suc 0))
             (cell_column (body_cells (tbody ?st ! 0) ! Suc 0))) = Some ''1''"
    by (simp add: t obj_get_def row_a_def number_to_string_def digits_of_small digit_char_def)
  note w = cell_blur_index_guard [OF a refl, of "Suc 0"]
  from w v have "cell_blur 0 (Suc 0) ?st = Inr (Rejected (set_cell_text 0 (Suc 0) ''1'' ?st))"
    by blast
  with w show ?thesis
    by (simp add: unindexed_state del: One_nat_def) (simp add: unindexed_state)
qed

text \<open>The claim as stated fails for a negative index other than -1: with the attribute
  set to \<open>-2\<close> the guard does not fire, the edit is accepted and the table is sent to
  the backend.\<close>

theorem negative_index_counterexample:
  "row_index_of (tbody tampered ! 0) = Some (- 2) \<and>
   requests tampered = [] \<and>
   accepted (commit_cell 0 1 ''7'' tampered) \<and>
   requests (state_after tampered (commit_cell 0 1 ''7'' tampered)) = [ReplaceData [row_a]]"
proof -
  have i: "row_index_of \<lparr>row_index_attr = Some ''-2'', body_cells = cs\<rparr> = Some (- 2)" for cs
    by (simp add: row_index_of_def parseInt_small)
  have p: "trim ''7'' = ''7''" "parseFloat ''7'' = Fin 7"
    by (simp_all add: trim_def is_ws_def is_digit_def parseFloat_def digits_val_def digit_val_def
          scale10_def)
  have u: "commit_cell 0 (Suc 0) ''7'' tampered =
     Inr (commit_edit 0 (Suc 0) ((render_cell row_a ''Variable 1'')\<lparr>cell_text := ''7''\<rparr>)
            (Some (- 2)) (Num (Fin 7))
            (set_cell_text 0 (Suc 0) (number_to_string (Fin 7))
               (set_cell_text 0 (Suc 0) ''7'' tampered)))"
    by (subst commit_cell_unfold)
       (simp_all add: tampered_state i p Let_def index_at_least_def)
  show ?thesis
    by (simp add: u i commit_edit_def tampered_state array_store_def Let_def)
qed

subsection \<open>Edits that follow an accepted edit\<close>

lemma set_cell_text_commute [simp]:
  "set_cell_text r c t (st\<lparr>tableData := td\<rparr>) = (set_cell_text r c t st)\<lparr>tableData := td\<rparr>"
  "set_cell_text r c t (st\<lparr>requests := rq\<rparr>) = (set_cell_text r c t st)\<lparr>requests := rq\<rparr>"
  by (simp_all add: set_cell_text_def)

text \<open>An accepted edit of a number cell that the backend confirms: the row is replaced
  by a copy with the new value, the cell shows the number; the row object the cell's
  handlers closed over stays what it was when the table was rendered.\<close>

lemma edit_cell_number_success:
  assumes "r < length (tbody st)" and "c < length (body_cells (tbody st ! r))"
    and "row_index_of (tbody st ! r) = Some i" and "0 \<le> i" and "i < int (length (tableData st))"
    and "cell_column (body_cells (tbody st ! r) ! c) = k" and "k \<noteq> ''Date''"
    and "parseFloat (trim t) = Fin q"
  shows "tableData (edit_cell r c t Success st) =
           (tableData st)[nat i := obj_set (tableData st ! nat i) k (Num (Fin q))]"
    and "tbody (edit_cell r c t Success st) = tbody (set_cell_text r c (number_to_string (Fin q)) st)"
    and "generation (edit_cell r c t Success st) = generation st"
  using assms
  by (simp_all add: edit_cell_def commit_cell_unfold Let_def commit_edit_def edit_settled_def
        set_cell_text_again)

text \<open>An accepted edit of a number cell that the backend refuses: the \<open>catch\<close> callback
  writes the row the handler closed over back into the table and shows its value.\<close>

lemma edit_cell_number_failure:
  assumes "r < length (tbody st)" and "c < length (body_cells (tbody st ! r))"
    and "row_index_of (tbody st ! r) = Some i" and "0 \<le> i" and "i < int (length (tableData st))"
    and "cell_column (body_cells (tbody st ! r) ! c) = k" and "k \<noteq> ''Date''"
    and "parseFloat (trim t) = Fin q" and "rp \<noteq> Success"
    and "js_to_string (obj_get (cell_row (body_cells (tbody st ! r) ! c)) k) = Some s"
  shows "tableData (edit_cell r c t rp st) =
           (tableData st)[nat i := cell_row (body_cells (tbody st ! r) ! c)]"
    and "tbody (edit_cell r c t rp st) = tbody (set_cell_text r c s st)"
  using assms
  by (simp_all add: edit_cell_def commit_cell_unfold Let_def commit_edit_def edit_settled_def
        set_cell_text_again)

text \<open>A rejected edit of a number cell: the cell shows the value of the row the handler
  closed over.\<close>

lemma edit_cell_number_rejected:
  assumes "r < length (tbody st)" and "c < length (body_cells (tbody st ! r))"
    and "row_index_of (tbody st ! r) = Some i" and "0 \<le> i" and "i < int (length (tableData st))"
    and "cell_column (body_cells (tbody st ! r) ! c) = k" and "k \<noteq> ''Date''"
    and "parseFloat (trim t) = NaN"
    and "js_to_string (obj_get (cell_row (body_cells (tbody st ! r) ! c)) k) = Some s"
  shows "edit_cell r c t rp st = set_cell_text r c s st"
  using assms
  by (simp add: edit_cell_def commit_cell_unfold Let_def revert_cell_effect set_cell_text_again)

lemma number_texts:
  "trim ''10'' = ''10''" "parseFloat ''10'' = Fin 10"
  "trim ''20'' = ''20''" "parseFloat ''20'' = Fin 20"
  "number_to_string (Fin 10) = ''10''"
  "js_to_string (obj_get row_a ''Variable 1'') = Some ''1''"
  "js_to_string (obj_get row_a ''Variable 2'') = Some ''2''"
  by (simp_all add: trim_def is_ws_def is_digit_def parseFloat_def digits_val_def digit_val_def
        scale10_def number_to_string_def digits_of_small digits_of_step digit_char_def
        obj_get_def row_a_def)

lemma edited_state:
  "tableData edited =
     [[(''Date'', Str ''2024-01-01''), (''Variable 1'', Num (Fin 10)), (''Variable 2'', Num (Fin 2))]]"
  "tbody edited =
     [\<lparr>row_index_attr = Some ''0'',
       body_cells = [render_cell row_a ''Date'',
                     (render_cell row_a ''Variable 1'')\<lparr>cell_text := ''10''\<rparr>,
                     render_cell row_a ''Variable 2'']\<rparr>]"
proof -
  note e = edit_cell_number_success [of 0 loaded "Suc 0" 0 "''Variable 1''" "''10''" 10]
  have "tableData (edit_cell 0 (Suc 0) ''10'' Success loaded) =
          (tableData loaded)[nat 0 := obj_set (tableData loaded ! nat 0) ''Variable 1'' (Num (Fin 10))]"
    by (rule e(1)) (simp_all add: loaded_cells loaded_state number_texts)
  then show "tableData edited =
     [[(''Date'', Str ''2024-01-01''), (''Variable 1'', Num (Fin 10)), (''Variable 2'', Num (Fin 2))]]"
    by (simp add: edited_def loaded_state obj_set_def row_a_def)
  have "tbody (edit_cell 0 (Suc 0) ''10'' Success loaded) =
          tbody (set_cell_text 0 (Suc 0) (number_to_string (Fin 10)) loaded)"
    by (rule e(2)) (simp_all add: loaded_cells loaded_state number_texts)
  then show "tbody edited =
     [\<lparr>row_index_attr = Some ''0'',
       body_cells = [render_cell row_a ''Date'',
                     (render_cell row_a ''Variable 1'')\<lparr>cell_text := ''10''\<rparr>,
                     render_cell row_a ''Variable 2'']\<rparr>]"
    by (simp add: edited_def number_texts set_cell_text_def loaded_page)
qed

lemma edited_cells:
  "length (tbody edited) = 1"
  "length (body_cells (tbody edited ! 0)) = 3"
  "row_index_of (tbody edited ! 0) = Some 0"
  "length (tableData edited) = 1"
  "cell_column (body_cells (tbody edited ! 0) ! Suc 0) = ''Variable 1''"
  "cell_row (body_cells (tbody edited ! 0) ! Suc 0) = row_a"
  "cell_column (body_cells (tbody edited ! 0) ! 2) = ''Variable 2''"
  "cell_row (body_cells (tbody edited ! 0) ! 2) = row_a"
  by (simp_all add: edited_state row_index_of_def parseInt_small)

text \<open>
  C6. After the accepted edit of the Variable 1 cell to 10 the Row Store holds 10 and
  the cell shows 10. The user then types \<open>abc\<close> into the same cell: the edit is rejected
  and the Row Store keeps 10, but the cell's text is set to 1, the value of the row
  object the handler closed over when the table was rendered, not to the last
  known-good value 10.
\<close>

theorem rejected_edit_shows_stale_value:
  "obj_get (tableData edited ! 0) ''Variable 1'' = Num (Fin 10) \<and>
   cell_text_at 0 1 edited = ''10'' \<and>
   \<not> accepted (commit_cell 0 1 ''abc'' edited) \<and>
   tableData (edit_cell 0 1 ''abc'' Success edited) = tableData edited \<and>
   cell_text_at 0 1 (edit_cell 0 1 ''abc'' Success edited) = ''1''"
proof -
  have a: "obj_get (tableData edited ! 0) ''Variable 1'' = Num (Fin 10)"
    by (simp add: edited_state obj_get_def)
  have b: "cell_text_at 0 (Suc 0) edited = ''10''"
    by (simp add: cell_text_at_def edited_state)
  have c: "accepted (commit_cell 0 (Suc 0) ''abc'' edited) = (parseFloat (trim ''abc'') \<noteq> NaN)"
    by (rule commit_cell_number(1) [of 0 edited "Suc 0" 0 "''Variable 1''"])
       (simp_all add: edited_cells)
  have d: "edit_cell 0 (Suc 0) ''abc'' Success edited = set_cell_text 0 (Suc 0) ''1'' edited"
    by (rule edit_cell_number_rejected [of 0 edited "Suc 0" 0 "''Variable 1''"])
       (simp_all add: edited_cells texts number_texts)
  have e: "cell_text_at 0 (Suc 0) (set_cell_text 0 (Suc 0) ''1'' edited) = ''1''"
    by (rule cell_text_at_set) (simp_all add: edited_cells)
  show ?thesis
    using a b c d e by (simp add: texts)
qed

text \<open>
  C5. After the accepted edit of the Variable 1 cell to 10, the user changes the
  Variable 2 cell of the same row to 20 and the backend refuses the request. The
  rollback writes back the row object the handler closed over when the table was
  rendered: the Row Store ends with Variable 1 = 1, not with the pre-edit row (Variable 1
  = 10), while the Variable 1 cell still shows 10.
\<close>

theorem rollback_restores_stale_row:
  "tableData edited =
     [[(''Date'', Str ''2024-01-01''), (''Variable 1'', Num (Fin 10)), (''Variable 2'', Num (Fin 2))]] \<and>
   accepted (commit_cell 0 2 ''20'' edited) \<and>
   tableData (edit_cell 0 2 ''20'' HttpError edited) =
     [[(''Date'', Str ''2024-01-01''), (''Variable 1'', Num (Fin 1)), (''Variable 2'', Num (Fin 2))]] \<and>
   cell_text_at 0 1 (edit_cell 0 2 ''20'' HttpError edited) = ''10'' \<and>
   cell_text_at 0 2 (edit_cell 0 2 ''20'' HttpError edited) = ''2''"
proof -
  have c: "accepted (commit_cell 0 2 ''20'' edited) = (parseFloat (trim ''20'') \<noteq> NaN)"
    by (rule commit_cell_number(1) [of 0 edited 2 0 "''Variable 2''"])
       (simp_all add: edited_cells)
  note f = edit_cell_number_failure [of 0 edited 2 0 "''Variable 2''" "''20''" 20 HttpError "''2''"]
  have d: "tableData (edit_cell 0 2 ''20'' HttpError edited) =
           (tableData edited)[nat 0 := cell_row (body_cells (tbody edited ! 0) ! 2)]"
    by (rule f(1)) (simp_all add: edited_cells number_texts)
  have e: "tbody (edit_cell 0 2 ''20'' HttpError edited) = tbody (set_cell_text 0 2 ''2'' edited)"
    by (rule f(2)) (simp_all add: edited_cells number_texts)
  have t: "cell_text_at 0 (Suc 0) (edit_cell 0 2 ''20'' HttpError edited) = ''10''"
    "cell_text_at 0 2 (edit_cell 0 2 ''20'' HttpError edited) = ''2''"
    by (simp_all add: cell_text_at_def e) (simp_all add: set_cell_text_def edited_state)
  show ?thesis
    using c t by (simp add: d edited_cells number_texts) (simp add: edited_state row_a_def)
qed

end
